theory Spec2Isabelle
  imports Complex_Main "HOL-Library.Word" "HOL-Library.Sublist"
begin

section \<open>JavaScript strings\<close>

text \<open>
  A JavaScript string is a finite sequence of 16-bit code units. \<open>startsWith\<close>,
  \<open>slice\<close>, \<open>length\<close> and \<open>encodeURIComponent\<close> all work on code units, so the
  model keeps them: a string is a list of 16-bit words. \<open>js\<close> turns an ASCII literal of
  the theory into such a string.
\<close>

type_synonym jsstring = "16 word list"

definition js :: "string \<Rightarrow> jsstring" where
  "js s = map of_char s"

text \<open>\<open>String.prototype.startsWith(searchString)\<close> at position 0.\<close>

definition startsWith :: "jsstring \<Rightarrow> jsstring \<Rightarrow> bool" where
  "startsWith s searchString = (take (length searchString) s = searchString)"

text \<open>\<open>String.prototype.slice(start)\<close> for a start \<open>0 \<le> start\<close> (a prefix length here).\<close>

definition slice :: "jsstring \<Rightarrow> nat \<Rightarrow> jsstring" where
  "slice s start = drop start s"

section \<open>Own-property order of an object\<close>

text \<open>
  An object literal is written as the list of its properties in the order they are
  written (keys distinct). \<open>Object.entries\<close> does not return that order: the own
  property keys of an ordinary object are enumerated with the array indices first, in
  ascending numeric order, and the remaining string keys after them, in creation order.
  An array index is a canonical numeric string (decimal digits, no leading zero except
  for \<open>"0"\<close> itself) whose value is below \<open>2^32 - 1\<close>.
\<close>

definition is_digit :: "16 word \<Rightarrow> bool" where
  "is_digit c = (48 \<le> unat c \<and> unat c \<le> 57)"

definition decimal_value :: "jsstring \<Rightarrow> nat" where
  "decimal_value k = foldl (\<lambda>a c. 10 * a + (unat c - 48)) 0 k"

definition is_array_index :: "jsstring \<Rightarrow> bool" where
  "is_array_index k =
     (k \<noteq> [] \<and> list_all is_digit k \<and> (k = [48] \<or> hd k \<noteq> 48)
      \<and> decimal_value k < 2 ^ 32 - 1)"

definition Object_entries :: "(jsstring \<times> 'a) list \<Rightarrow> (jsstring \<times> 'a) list" where
  "Object_entries props =
     sort_key (\<lambda>(k, v). decimal_value k) (filter (\<lambda>(k, v). is_array_index k) props)
     @ filter (\<lambda>(k, v). \<not> is_array_index k) props"

section \<open>Tag classifier\<close>

text \<open>\<open>static TagTypes\<close>: six string constants.\<close>

definition TagTypes_Character :: jsstring where
  "TagTypes_Character = js ''character''"

definition TagTypes_Maker :: jsstring where
  "TagTypes_Maker = js ''maker''"

definition TagTypes_Photographer :: jsstring where
  "TagTypes_Photographer = js ''photographer''"

definition TagTypes_Species :: jsstring where
  "TagTypes_Species = js ''species''"

definition TagTypes_Event :: jsstring where
  "TagTypes_Event = js ''event''"

definition TagTypes_General :: jsstring where
  "TagTypes_General = js ''general''"

text \<open>\<open>static tagTypePrefixes\<close>: the object literal, in the order it is written.\<close>

definition tagTypePrefixes :: "(jsstring \<times> jsstring) list" where
  "tagTypePrefixes =
     [(js ''1:'', TagTypes_Character),
      (js ''2:'', TagTypes_Maker),
      (js ''3:'', TagTypes_Photographer),
      (js ''5:'', TagTypes_Event),
      (js ''6'', TagTypes_Species)]"

text \<open>The object \<open>{ type, value }\<close> that \<open>parseTag\<close> returns.\<close>

record parsed =
  "type" :: jsstring
  "value" :: jsstring

text \<open>
  The \<open>for (const [prefix, type] of ...)\<close> loop of the static \<open>parseTag\<close>, over the
  entries still to be tried: the first prefix the tag starts with decides, and when none
  is left the tag is a general one, unchanged. The instance method of the same name
  only calls the static one.
\<close>

fun parseTag_loop :: "(jsstring \<times> jsstring) list \<Rightarrow> jsstring \<Rightarrow> parsed" where
  "parseTag_loop [] tagString = \<lparr>type = TagTypes_General, value = tagString\<rparr>"
| "parseTag_loop ((pre, ty) # rest) tagString =
     (if startsWith tagString pre
      then \<lparr>type = ty, value = slice tagString (length pre)\<rparr>
      else parseTag_loop rest tagString)"

definition parseTag :: "jsstring \<Rightarrow> parsed" where
  "parseTag tagString = parseTag_loop (Object_entries tagTypePrefixes) tagString"

text \<open>A tag record of the service: an object with a \<open>tagName\<close> string.\<close>

record tag =
  tagName :: jsstring

text \<open>\<open>static getTagsByType(tags, type)\<close>: map, filter with \<open>===\<close>, map.\<close>

definition getTagsByType :: "tag list \<Rightarrow> jsstring \<Rightarrow> jsstring list" where
  "getTagsByType tags ty =
     map (\<lambda>p. value p)
       (filter (\<lambda>p. type p = ty)
         (map (\<lambda>t. parseTag (tagName t)) tags))"

text \<open>
  The reference classifier of the specification, for comparison with \<open>parseTag\<close>: the
  rules \<open>"1:"\<close>, \<open>"2:"\<close>, \<open>"3:"\<close>, \<open>"5:"\<close>, \<open>"6"\<close> are tried in the order they are
  declared and the first one that is a textual prefix of the tag wins.
\<close>

definition declared_rules :: "(jsstring \<times> jsstring) list" where
  "declared_rules =
     [(js ''1:'', js ''character''), (js ''2:'', js ''maker''),
      (js ''3:'', js ''photographer''), (js ''5:'', js ''event''),
      (js ''6'', js ''species'')]"

definition first_match_reference :: "jsstring \<Rightarrow> parsed" where
  "first_match_reference s =
     (case find (\<lambda>(p, t). prefix p s) declared_rules of
        Some (p, t) \<Rightarrow> \<lparr>type = t, value = drop (length p) s\<rparr>
      | None \<Rightarrow> \<lparr>type = js ''general'', value = s\<rparr>)"

section \<open>JavaScript values, errors and conversions\<close>

text \<open>
  A number is a double: a finite value (a rational here; the two zeros are one value),
  \<open>NaN\<close>, or one of the infinities.
\<close>

datatype jsnumber =
    Num rat
  | NaN
  | PosInfinity
  | NegInfinity

text \<open>
  The values a decoded JSON body is made of, and \<open>undefined\<close>, which a property
  access on a missing key yields. An object is the list of its own properties, keys
  distinct.
\<close>

datatype jsvalue =
    JUndefined
  | JNull
  | JBool bool
  | JNumber jsnumber
  | JString jsstring
  | JArray "jsvalue list"
  | JObject "(jsstring \<times> jsvalue) list"

text \<open>
  What an operation throws or rejects with: \<open>Error message\<close> is
  \<open>new Error(message)\<close>; the others are the built-in error classes of the platform.
\<close>

datatype error =
    Error jsstring
  | URIError
  | TypeError
  | SyntaxError
  | NetworkError

text \<open>Sequencing of steps that may throw: the first error ends the computation.\<close>

definition and_then :: "error + 'a \<Rightarrow> ('a \<Rightarrow> error + 'b) \<Rightarrow> error + 'b" where
  "and_then r f = (case r of Inl e \<Rightarrow> Inl e | Inr x \<Rightarrow> f x)"

fun sequence :: "(error + 'a) list \<Rightarrow> error + 'a list" where
  "sequence [] = Inr []"
| "sequence (r # rs) = and_then r (\<lambda>x. and_then (sequence rs) (\<lambda>xs. Inr (x # xs)))"

text \<open>The decimal numeral of a natural number.\<close>

fun digits :: "nat \<Rightarrow> jsstring" where
  "digits n =
     (if n < 10 then [of_nat (48 + n)]
      else digits (n div 10) @ [of_nat (48 + n mod 10)])"

text \<open>\<open>Number.isSafeInteger\<close>: an integer of magnitude at most \<open>2^53 - 1\<close>.\<close>

definition isSafeInteger :: "rat \<Rightarrow> bool" where
  "isSafeInteger r = (of_int \<lfloor>r\<rfloor> = r \<and> \<bar>r\<bar> \<le> 9007199254740991)"

text \<open>
  \<open>Number.prototype.toString\<close>. On a safe integer it is the decimal numeral, with
  its sign. On every other finite number it is the shortest numeral that reads back as
  the same double, in positional or exponent form (\<open>0.5\<close>, \<open>1e+21\<close>,
  \<open>1152921504606847000\<close> for \<open>2^60\<close>): that function of the platform is not modelled, it
  is the parameter \<open>shortest\<close> of the conversions and of every operation that prints
  a number.
\<close>

definition Number_toString :: "(rat \<Rightarrow> jsstring) \<Rightarrow> jsnumber \<Rightarrow> jsstring" where
  "Number_toString shortest n =
     (case n of
        Num r \<Rightarrow>
          if isSafeInteger r
          then (if r < 0 then js ''-'' @ digits (nat (- \<lfloor>r\<rfloor>)) else digits (nat \<lfloor>r\<rfloor>))
          else shortest r
      | NaN \<Rightarrow> js ''NaN''
      | PosInfinity \<Rightarrow> js ''Infinity''
      | NegInfinity \<Rightarrow> js ''-Infinity'')"

text \<open>A stand-in for \<open>shortest\<close> in the examples, which print safe integers only.\<close>

definition shortest_stub :: "rat \<Rightarrow> jsstring" where
  "shortest_stub r = js ''?''"

text \<open>The comparison \<open>n > 0\<close> of a number with zero: false for \<open>NaN\<close>.\<close>

fun greater_than_zero :: "jsnumber \<Rightarrow> bool" where
  "greater_than_zero (Num r) = (0 < r)"
| "greater_than_zero NaN = False"
| "greater_than_zero PosInfinity = True"
| "greater_than_zero NegInfinity = False"

text \<open>\<open>Array.prototype.join\<close> on strings already converted.\<close>

fun join :: "jsstring \<Rightarrow> jsstring list \<Rightarrow> jsstring" where
  "join sep [] = []"
| "join sep [x] = x"
| "join sep (x # y # ys) = x @ sep @ join sep (y # ys)"

text \<open>
  \<open>ToString\<close>, as a template literal \<open>`${v}`\<close> and \<open>encodeURIComponent(v)\<close> apply
  it. An array is joined with commas, its elements converted in order, \<open>null\<close> and
  \<open>undefined\<close> elements giving the empty string. An object is converted by the method
  \<open>toString\<close> it has: a decoded object inherits the one that gives
  \<open>[object Object]\<close>, unless it holds a property \<open>toString\<close> of its own, which is
  no function (no decoded value is); the conversion then finds no method that yields a
  primitive value and throws a TypeError.
\<close>

fun ToString :: "(rat \<Rightarrow> jsstring) \<Rightarrow> jsvalue \<Rightarrow> error + jsstring" where
  "ToString shortest JUndefined = Inr (js ''undefined'')"
| "ToString shortest JNull = Inr (js ''null'')"
| "ToString shortest (JBool b) = Inr (if b then js ''true'' else js ''false'')"
| "ToString shortest (JNumber n) = Inr (Number_toString shortest n)"
| "ToString shortest (JString s) = Inr s"
| "ToString shortest (JArray xs) =
     and_then
       (sequence
          (map (\<lambda>x. if x = JUndefined \<or> x = JNull then Inr [] else ToString shortest x) xs))
       (\<lambda>strings. Inr (join (js '','') strings))"
| "ToString shortest (JObject props) =
     (if map_of props (js ''toString'') = None then Inr (js ''[object Object]'')
      else Inl TypeError)"

text \<open>\<open>ToBoolean\<close>: the falsy values are \<open>undefined\<close>, \<open>null\<close>, \<open>false\<close>, zero,
  \<open>NaN\<close> and the empty string.\<close>

fun ToBoolean :: "jsvalue \<Rightarrow> bool" where
  "ToBoolean JUndefined = False"
| "ToBoolean JNull = False"
| "ToBoolean (JBool b) = b"
| "ToBoolean (JNumber n) = (n \<noteq> Num 0 \<and> n \<noteq> NaN)"
| "ToBoolean (JString s) = (s \<noteq> [])"
| "ToBoolean (JArray xs) = True"
| "ToBoolean (JObject props) = True"

text \<open>
  Property access \<open>v.key\<close>, for the keys this library reads (\<open>posts\<close>,
  \<open>submitUserId\<close>, \<open>id\<close>, \<open>metaFingerprint\<close>, \<open>metaFiletype\<close>), none of which a
  built-in prototype defines: on \<open>null\<close> and \<open>undefined\<close> it throws a TypeError, on an
  object it is the property's value or \<open>undefined\<close>, on anything else \<open>undefined\<close>.
\<close>

fun Get :: "jsvalue \<Rightarrow> jsstring \<Rightarrow> error + jsvalue" where
  "Get JUndefined key = Inl TypeError"
| "Get JNull key = Inl TypeError"
| "Get (JObject props) key =
     Inr (case map_of props key of Some v \<Rightarrow> v | None \<Rightarrow> JUndefined)"
| "Get v key = Inr JUndefined"

section \<open>encodeURIComponent\<close>

text \<open>
  The characters \<open>encodeURIComponent\<close> leaves as they are: the letters, the decimal
  digits and the marks \<open>- _ . ! ~ * ' ( )\<close>.
\<close>

definition uriUnescaped :: "16 word \<Rightarrow> bool" where
  "uriUnescaped c =
     (let n = unat c in
        (65 \<le> n \<and> n \<le> 90) \<or> (97 \<le> n \<and> n \<le> 122) \<or> (48 \<le> n \<and> n \<le> 57)
        \<or> n \<in> set [45, 95, 46, 33, 126, 42, 39, 40, 41])"

definition is_leading_surrogate :: "16 word \<Rightarrow> bool" where
  "is_leading_surrogate c = (55296 \<le> unat c \<and> unat c \<le> 56319)"

definition is_trailing_surrogate :: "16 word \<Rightarrow> bool" where
  "is_trailing_surrogate c = (56320 \<le> unat c \<and> unat c \<le> 57343)"

text \<open>The code point of a surrogate pair.\<close>

definition pair_code_point :: "16 word \<Rightarrow> 16 word \<Rightarrow> nat" where
  "pair_code_point lead trail = (unat lead - 55296) * 1024 + (unat trail - 56320) + 65536"

text \<open>The UTF-8 octets of a code point.\<close>

definition utf8 :: "nat \<Rightarrow> nat list" where
  "utf8 cp =
     (if cp < 128 then [cp]
      else if cp < 2048 then [192 + cp div 64, 128 + cp mod 64]
      else if cp < 65536 then [224 + cp div 4096, 128 + cp div 64 mod 64, 128 + cp mod 64]
      else [240 + cp div 262144, 128 + cp div 4096 mod 64, 128 + cp div 64 mod 64,
            128 + cp mod 64])"

text \<open>An octet as \<open>%XY\<close>, two upper-case hexadecimal digits.\<close>

definition hex_digit :: "nat \<Rightarrow> 16 word" where
  "hex_digit n = (if n < 10 then of_nat (48 + n) else of_nat (55 + n))"

definition percent_octet :: "nat \<Rightarrow> jsstring" where
  "percent_octet b = [37, hex_digit (b div 16), hex_digit (b mod 16)]"

text \<open>
  The abstract operation \<open>Encode\<close> of ECMAScript with the unescaped set of
  \<open>encodeURIComponent\<close>, on the code units still to be read: an unescaped code unit is
  copied; any other one is taken as a code point, together with the trailing surrogate
  after it when it is a leading surrogate, and every UTF-8 octet of the code point is
  written as \<open>%XY\<close>; a surrogate without its partner throws a URIError.
\<close>

fun Encode :: "jsstring \<Rightarrow> error + jsstring" where
  "Encode [] = Inr []"
| "Encode (c # cs) =
     (if uriUnescaped c then and_then (Encode cs) (\<lambda>r. Inr (c # r))
      else if \<not> is_leading_surrogate c \<and> \<not> is_trailing_surrogate c
      then and_then (Encode cs)
             (\<lambda>r. Inr (concat (map percent_octet (utf8 (unat c))) @ r))
      else if is_trailing_surrogate c then Inl URIError
      else (case cs of
              [] \<Rightarrow> Inl URIError
            | d # ds \<Rightarrow>
                if is_trailing_surrogate d
                then and_then (Encode ds)
                       (\<lambda>r. Inr (concat (map percent_octet (utf8 (pair_code_point c d))) @ r))
                else Inl URIError))"

text \<open>\<open>encodeURIComponent(v)\<close>: the argument is converted to a string first.\<close>

definition encodeURIComponent :: "(rat \<Rightarrow> jsstring) \<Rightarrow> jsvalue \<Rightarrow> error + jsstring" where
  "encodeURIComponent shortest v = and_then (ToString shortest v) Encode"

section \<open>The client\<close>

text \<open>The settings of the HTTPS agent the constructor creates.\<close>

record agent_settings =
  rejectUnauthorized :: bool
  ciphers :: jsstring
  honorCipherOrder :: bool
  minVersion :: jsstring
  maxVersion :: jsstring

text \<open>
  An instance: \<open>apiKey\<close> is \<open>None\<close> while it is \<open>undefined\<close>; \<open>defaultHeaders\<close> is
  the header object, a mapping from header names to values.
\<close>

record FurtrackAPI =
  apiKey :: "jsstring option"
  baseUrl :: jsstring
  agent :: agent_settings
  defaultHeaders :: "jsstring \<rightharpoonup> jsstring"

text \<open>
  \<open>constructor({ apiKey = undefined, headers = {} } = {})\<close>: the given headers are
  spread over the built-in ones, and a truthy key (a non-empty string) sets
  \<open>Authorization\<close>.
\<close>

definition new_FurtrackAPI :: "jsstring option \<Rightarrow> (jsstring \<rightharpoonup> jsstring) \<Rightarrow> FurtrackAPI" where
  "new_FurtrackAPI key headers =
     (let this =
        \<lparr>apiKey = key,
         baseUrl = js ''https://solar.furtrack.com'',
         agent =
           \<lparr>rejectUnauthorized = False,
            ciphers = js ''TLS_AES_128_GCM_SHA256:TLS_AES_256_GCM_SHA384'',
            honorCipherOrder = True,
            minVersion = js ''TLSv1.2'',
            maxVersion = js ''TLSv1.3''\<rparr>,
         defaultHeaders =
           [js ''User-Agent'' \<mapsto>
              js ''furtrack-api/1.0 (https://github.com/blumlaut/furtrack-api)'',
            js ''Accept'' \<mapsto> js ''application/json, text/plain, */*'',
            js ''Referer'' \<mapsto> js ''https://www.furtrack.com/'',
            js ''Origin'' \<mapsto> js ''https://www.furtrack.com'',
            js ''Accept-Language'' \<mapsto> js ''en-US,en;q=0.5'']
           ++ headers\<rparr>
      in case key of
           None \<Rightarrow> this
         | Some k \<Rightarrow>
             if k \<noteq> []
             then this\<lparr>defaultHeaders :=
                    (defaultHeaders this)(js ''Authorization'' \<mapsto> js ''Bearer '' @ k)\<rparr>
             else this)"

text \<open>\<open>new FurtrackAPI()\<close>, the client of the test suite.\<close>

definition api :: FurtrackAPI where
  "api = new_FurtrackAPI None Map.empty"

definition setApiKey :: "FurtrackAPI \<Rightarrow> jsstring \<Rightarrow> FurtrackAPI" where
  "setApiKey this key =
     this\<lparr>apiKey := Some key,
          defaultHeaders :=
            (defaultHeaders this)(js ''Authorization'' \<mapsto> js ''Bearer '' @ key)\<rparr>"

definition setHeaders :: "FurtrackAPI \<Rightarrow> (jsstring \<rightharpoonup> jsstring) \<Rightarrow> FurtrackAPI" where
  "setHeaders this headers =
     this\<lparr>defaultHeaders := defaultHeaders this ++ headers\<rparr>"

section \<open>Requests\<close>

text \<open>
  The options object handed to \<open>fetch\<close>: a mapping from option names to values.
\<close>

datatype optvalue =
    OptString jsstring
  | OptAgent agent_settings
  | OptHeaders "jsstring \<rightharpoonup> jsstring"

type_synonym fetchOptions = "jsstring \<rightharpoonup> optvalue"

text \<open>
  What \<open>fetch\<close> resolves to: the status of the response, and what \<open>res.json()\<close>
  decodes its body to, \<open>None\<close> when the body is not JSON (the promise of
  \<open>res.json()\<close> is then rejected with a SyntaxError).
\<close>

record response =
  status :: nat
  json :: "jsvalue option"

text \<open>\<open>Response.ok\<close> of the Fetch standard: the status is in the range 200 to 299.\<close>

definition ok :: "response \<Rightarrow> bool" where
  "ok res = (200 \<le> status res \<and> status res \<le> 299)"

text \<open>
  The network is a parameter: \<open>fetch url options\<close> is the response, or the error the
  promise of \<open>fetch\<close> is rejected with. A rejected promise and a thrown exception are
  both the \<open>Inl\<close> of a result.
\<close>

type_synonym fetch = "jsstring \<Rightarrow> fetchOptions \<Rightarrow> error + response"

text \<open>A network answering every request with the same response, as a test double does.\<close>

definition respond_with :: "response \<Rightarrow> fetch" where
  "respond_with res url options = Inr res"

text \<open>
  Two networks that show which URL they were asked for: \<open>echo\<close> answers a request
  with its URL as the body, \<open>echo_posts\<close> with the body \<open>{posts: url}\<close>.
\<close>

definition echo :: fetch where
  "echo url options = Inr \<lparr>status = 200, json = Some (JString url)\<rparr>"

definition echo_posts :: fetch where
  "echo_posts url options =
     Inr \<lparr>status = 200, json = Some (JObject [(js ''posts'', JString url)])\<rparr>"

text \<open>
  \<open>fetchJSON(path, options = {})\<close>. The status of a response is an unsigned short, so
  \<open>`${res.status}`\<close> is its decimal numeral.
\<close>

definition fetchJSON :: "fetch \<Rightarrow> FurtrackAPI \<Rightarrow> jsstring \<Rightarrow> fetchOptions \<Rightarrow> error + jsvalue" where
  "fetchJSON fetch this path options =
     (let url = baseUrl this @ path;
          fetchOptions =
            [js ''method'' \<mapsto> OptString (js ''GET''),
             js ''agent'' \<mapsto> OptAgent (agent this),
             js ''headers'' \<mapsto> OptHeaders (defaultHeaders this)]
            ++ options
      in case fetch url fetchOptions of
           Inl e \<Rightarrow> Inl e
         | Inr res \<Rightarrow>
             if \<not> ok res
             then Inl (Error (js ''HTTP error '' @ digits (status res)))
             else (case json res of None \<Rightarrow> Inl SyntaxError | Some v \<Rightarrow> Inr v))"

text \<open>
  The options of a request whose caller gives none: the literal of \<open>fetchJSON\<close>.
\<close>

definition request_options :: "FurtrackAPI \<Rightarrow> fetchOptions" where
  "request_options this =
     [js ''method'' \<mapsto> OptString (js ''GET''),
      js ''agent'' \<mapsto> OptAgent (agent this),
      js ''headers'' \<mapsto> OptHeaders (defaultHeaders this)]"

text \<open>
  Two networks answer alike the one request for a path that a client makes with no
  options of the caller's.
\<close>

definition same_answer :: "fetch \<Rightarrow> fetch \<Rightarrow> FurtrackAPI \<Rightarrow> jsstring \<Rightarrow> bool" where
  "same_answer fetch' fetch this path =
     (fetch' (baseUrl this @ path) (request_options this)
        = fetch (baseUrl this @ path) (request_options this))"

text \<open>
  Each operation builds its path with a template literal and hands it to \<open>fetchJSON\<close>.
  The template is a definition of its own, \<open>_path\<close>; the page is a number, \<open>0\<close> when
  the caller leaves it out. The first argument of every operation is the platform's
  printer of the numbers that are not safe integers (see \<open>Number_toString\<close>).
\<close>

definition getTag_path :: "(rat \<Rightarrow> jsstring) \<Rightarrow> jsvalue \<Rightarrow> error + jsstring" where
  "getTag_path shortest tag =
     and_then (encodeURIComponent shortest tag) (\<lambda>t. Inr (js ''/get/index/'' @ t))"

definition getTag ::
  "(rat \<Rightarrow> jsstring) \<Rightarrow> fetch \<Rightarrow> FurtrackAPI \<Rightarrow> jsvalue \<Rightarrow> error + jsvalue" where
  "getTag shortest fetch this tag =
     and_then (getTag_path shortest tag) (\<lambda>path. fetchJSON fetch this path Map.empty)"

definition getUser_path :: "(rat \<Rightarrow> jsstring) \<Rightarrow> jsvalue \<Rightarrow> error + jsstring" where
  "getUser_path shortest username =
     and_then (encodeURIComponent shortest username) (\<lambda>u. Inr (js ''/get/u/'' @ u))"

definition getUser ::
  "(rat \<Rightarrow> jsstring) \<Rightarrow> fetch \<Rightarrow> FurtrackAPI \<Rightarrow> jsvalue \<Rightarrow> error + jsvalue" where
  "getUser shortest fetch this username =
     and_then (getUser_path shortest username) (\<lambda>path. fetchJSON fetch this path Map.empty)"

definition getPost_path :: "(rat \<Rightarrow> jsstring) \<Rightarrow> jsvalue \<Rightarrow> error + jsstring" where
  "getPost_path shortest postId =
     and_then (encodeURIComponent shortest postId) (\<lambda>p. Inr (js ''/view/post/'' @ p))"

definition getPost ::
  "(rat \<Rightarrow> jsstring) \<Rightarrow> fetch \<Rightarrow> FurtrackAPI \<Rightarrow> jsvalue \<Rightarrow> error + jsvalue" where
  "getPost shortest fetch this postId =
     and_then (getPost_path shortest postId) (\<lambda>path. fetchJSON fetch this path Map.empty)"

definition getPostsByTag_path ::
  "(rat \<Rightarrow> jsstring) \<Rightarrow> jsvalue \<Rightarrow> jsnumber \<Rightarrow> error + jsstring" where
  "getPostsByTag_path shortest tag page =
     and_then (encodeURIComponent shortest tag)
       (\<lambda>t. Inr (js ''/get/tag/'' @ t
                  @ (if greater_than_zero page
                     then js ''/'' @ Number_toString shortest page else [])))"

definition getPostsByTag ::
  "(rat \<Rightarrow> jsstring) \<Rightarrow> fetch \<Rightarrow> FurtrackAPI \<Rightarrow> jsvalue \<Rightarrow> jsnumber \<Rightarrow> error + jsvalue" where
  "getPostsByTag shortest fetch this tag page =
     and_then (getPostsByTag_path shortest tag page) (\<lambda>path.
     and_then (fetchJSON fetch this path Map.empty) (\<lambda>response.
     and_then (Get response (js ''posts'')) (\<lambda>posts.
     Inr (if ToBoolean posts then posts else JArray []))))"

definition getPostsByUser_path ::
  "(rat \<Rightarrow> jsstring) \<Rightarrow> jsvalue \<Rightarrow> jsnumber \<Rightarrow> error + jsstring" where
  "getPostsByUser_path shortest username page =
     and_then (encodeURIComponent shortest username)
       (\<lambda>u. Inr (js ''/view/album/'' @ u @ js ''/3''
                  @ (if greater_than_zero page
                     then js ''/'' @ Number_toString shortest page else [])))"

definition getPostsByUser ::
  "(rat \<Rightarrow> jsstring) \<Rightarrow> fetch \<Rightarrow> FurtrackAPI \<Rightarrow> jsvalue \<Rightarrow> jsnumber \<Rightarrow> error + jsvalue" where
  "getPostsByUser shortest fetch this username page =
     and_then (getPostsByUser_path shortest username page) (\<lambda>path.
     and_then (fetchJSON fetch this path Map.empty) (\<lambda>response.
     and_then (Get response (js ''posts'')) (\<lambda>posts.
     Inr (if ToBoolean posts then posts else JArray []))))"

definition getLikes_path ::
  "(rat \<Rightarrow> jsstring) \<Rightarrow> jsvalue \<Rightarrow> jsnumber \<Rightarrow> error + jsstring" where
  "getLikes_path shortest username page =
     and_then (encodeURIComponent shortest username)
       (\<lambda>u. Inr (js ''/view/album/'' @ u @ js ''/o''
                  @ (if greater_than_zero page
                     then js ''/'' @ Number_toString shortest page else [])))"

definition getLikes ::
  "(rat \<Rightarrow> jsstring) \<Rightarrow> fetch \<Rightarrow> FurtrackAPI \<Rightarrow> jsvalue \<Rightarrow> jsnumber \<Rightarrow> error + jsvalue" where
  "getLikes shortest fetch this username page =
     and_then (getLikes_path shortest username page) (\<lambda>path.
     and_then (fetchJSON fetch this path Map.empty) (\<lambda>response.
     and_then (Get response (js ''posts'')) (\<lambda>posts.
     Inr (if ToBoolean posts then posts else JArray []))))"

text \<open>
  \<open>getThumbnail\<close>: the four fields are read and converted in the order the template
  names them.
\<close>

definition getThumbnail ::
  "(rat \<Rightarrow> jsstring) \<Rightarrow> fetch \<Rightarrow> FurtrackAPI \<Rightarrow> jsvalue \<Rightarrow> error + jsstring" where
  "getThumbnail shortest fetch this postId =
     and_then (getPost shortest fetch this postId) (\<lambda>postData.
     and_then (Get postData (js ''submitUserId'')) (\<lambda>submitUserId.
     and_then (ToString shortest submitUserId) (\<lambda>s1.
     and_then (Get postData (js ''id'')) (\<lambda>ident.
     and_then (ToString shortest ident) (\<lambda>s2.
     and_then (Get postData (js ''metaFingerprint'')) (\<lambda>metaFingerprint.
     and_then (ToString shortest metaFingerprint) (\<lambda>s3.
     and_then (Get postData (js ''metaFiletype'')) (\<lambda>metaFiletype.
     and_then (ToString shortest metaFiletype) (\<lambda>s4.
     Inr (js ''https://orca2.furtrack.com/gallery/'' @ s1 @ js ''/'' @ s2 @ js ''-'' @ s3
          @ js ''.'' @ s4))))))))))"

definition getAlbum_path ::
  "(rat \<Rightarrow> jsstring) \<Rightarrow> jsvalue \<Rightarrow> jsvalue \<Rightarrow> jsnumber \<Rightarrow> error + jsstring" where
  "getAlbum_path shortest username albumId page =
     and_then (encodeURIComponent shortest username) (\<lambda>u.
     and_then (encodeURIComponent shortest albumId) (\<lambda>a.
     Inr (js ''/view/album/'' @ u @ js ''/'' @ a
          @ (if greater_than_zero page
             then js ''/'' @ Number_toString shortest page else []))))"

definition getAlbum ::
  "(rat \<Rightarrow> jsstring) \<Rightarrow> fetch \<Rightarrow> FurtrackAPI \<Rightarrow> jsvalue \<Rightarrow> jsvalue \<Rightarrow> jsnumber
     \<Rightarrow> error + jsvalue" where
  "getAlbum shortest fetch this username albumId page =
     and_then (getAlbum_path shortest username albumId page)
       (\<lambda>path. fetchJSON fetch this path Map.empty)"

section \<open>Reading an encoded segment back\<close>

text \<open>
  What the receiver of a request does with a path segment, for stating that a segment
  survives the encoding: the escapes \<open>%XY\<close> are read as octets (a character outside
  an escape is the octet of its ASCII code), the octets are decoded as UTF-8 to code
  points, and the code points are written as UTF-16 code units.
\<close>

definition hex_value :: "16 word \<Rightarrow> nat option" where
  "hex_value c =
     (let n = unat c in
        if 48 \<le> n \<and> n \<le> 57 then Some (n - 48)
        else if 65 \<le> n \<and> n \<le> 70 then Some (n - 55)
        else if 97 \<le> n \<and> n \<le> 102 then Some (n - 87)
        else None)"

fun unescape :: "jsstring \<Rightarrow> nat list option" where
  "unescape [] = Some []"
| "unescape (c # cs) =
     (if c = 37
      then (case cs of
              h # l # rest \<Rightarrow>
                (case (hex_value h, hex_value l) of
                   (Some a, Some b) \<Rightarrow> map_option ((#) (16 * a + b)) (unescape rest)
                 | _ \<Rightarrow> None)
            | _ \<Rightarrow> None)
      else if unat c < 128 then map_option ((#) (unat c)) (unescape cs)
      else None)"

definition is_continuation :: "nat \<Rightarrow> bool" where
  "is_continuation b = (128 \<le> b \<and> b < 192)"

fun utf8_decode :: "nat list \<Rightarrow> nat list option" where
  "utf8_decode [] = Some []"
| "utf8_decode (b0 # bs) =
     (if b0 < 128 then map_option ((#) b0) (utf8_decode bs)
      else if 192 \<le> b0 \<and> b0 < 224
      then (case bs of
              b1 # rest \<Rightarrow>
                if is_continuation b1
                then map_option ((#) ((b0 - 192) * 64 + (b1 - 128))) (utf8_decode rest)
                else None
            | _ \<Rightarrow> None)
      else if 224 \<le> b0 \<and> b0 < 240
      then (case bs of
              b1 # b2 # rest \<Rightarrow>
                if is_continuation b1 \<and> is_continuation b2
                then map_option
                       ((#) ((b0 - 224) * 4096 + (b1 - 128) * 64 + (b2 - 128)))
                       (utf8_decode rest)
                else None
            | _ \<Rightarrow> None)
      else if 240 \<le> b0 \<and> b0 < 248
      then (case bs of
              b1 # b2 # b3 # rest \<Rightarrow>
                if is_continuation b1 \<and> is_continuation b2 \<and> is_continuation b3
                then map_option
                       ((#) ((b0 - 240) * 262144 + (b1 - 128) * 4096 + (b2 - 128) * 64
                             + (b3 - 128)))
                       (utf8_decode rest)
                else None
            | _ \<Rightarrow> None)
      else None)"

definition utf16 :: "nat \<Rightarrow> jsstring" where
  "utf16 cp =
     (if cp < 65536 then [of_nat cp]
      else [of_nat (55296 + (cp - 65536) div 1024), of_nat (56320 + (cp - 65536) mod 1024)])"

definition percent_decode :: "jsstring \<Rightarrow> jsstring option" where
  "percent_decode e =
     (case unescape e of
        None \<Rightarrow> None
      | Some bs \<Rightarrow>
          (case utf8_decode bs of
             None \<Rightarrow> None
           | Some cps \<Rightarrow> Some (concat (map utf16 cps))))"

text \<open>
  \<open>String.prototype.isWellFormed\<close>: every leading surrogate is followed by a trailing
  one, and no trailing surrogate stands alone.
\<close>

fun isWellFormed :: "jsstring \<Rightarrow> bool" where
  "isWellFormed [] = True"
| "isWellFormed (c # cs) =
     (if is_leading_surrogate c
      then (case cs of [] \<Rightarrow> False | d # ds \<Rightarrow> is_trailing_surrogate d \<and> isWellFormed ds)
      else \<not> is_trailing_surrogate c \<and> isWellFormed cs)"

section \<open>Facts about the tag classifier\<close>

declare digits.simps [simp del]

lemma entries_tagTypePrefixes:
  "Object_entries tagTypePrefixes =
     [(js ''6'', TagTypes_Species),
      (js ''1:'', TagTypes_Character),
      (js ''2:'', TagTypes_Maker),
      (js ''3:'', TagTypes_Photographer),
      (js ''5:'', TagTypes_Event)]"
  by (simp add: Object_entries_def tagTypePrefixes_def is_array_index_def is_digit_def
      decimal_value_def js_def)

lemma parseTag_unfold:
  "parseTag s =
     (if startsWith s (js ''6'') then \<lparr>type = TagTypes_Species, value = drop 1 s\<rparr>
      else if startsWith s (js ''1:'') then \<lparr>type = TagTypes_Character, value = drop 2 s\<rparr>
      else if startsWith s (js ''2:'') then \<lparr>type = TagTypes_Maker, value = drop 2 s\<rparr>
      else if startsWith s (js ''3:'') then \<lparr>type = TagTypes_Photographer, value = drop 2 s\<rparr>
      else if startsWith s (js ''5:'') then \<lparr>type = TagTypes_Event, value = drop 2 s\<rparr>
      else \<lparr>type = TagTypes_General, value = s\<rparr>)"
  unfolding parseTag_def entries_tagTypePrefixes
  by (simp add: slice_def js_def numeral_2_eq_2)

lemma startsWith_prefix: "startsWith s p = prefix p s"
  by (auto simp: startsWith_def prefix_def take_is_prefix)
    (metis append_eq_conv_conj)

lemma first_match_reference_unfold:
  "first_match_reference s =
     (if prefix (js ''1:'') s then \<lparr>type = js ''character'', value = drop 2 s\<rparr>
      else if prefix (js ''2:'') s then \<lparr>type = js ''maker'', value = drop 2 s\<rparr>
      else if prefix (js ''3:'') s then \<lparr>type = js ''photographer'', value = drop 2 s\<rparr>
      else if prefix (js ''5:'') s then \<lparr>type = js ''event'', value = drop 2 s\<rparr>
      else if prefix (js ''6'') s then \<lparr>type = js ''species'', value = drop 1 s\<rparr>
      else \<lparr>type = js ''general'', value = s\<rparr>)"
  by (simp add: first_match_reference_def declared_rules_def js_def numeral_2_eq_2)

section \<open>Facts about results and numerals\<close>

lemma and_then_Inr [simp]: "and_then (Inr x) f = f x"
  by (simp add: and_then_def)

lemma and_then_Inl [simp]: "and_then (Inl e) f = Inl e"
  by (simp add: and_then_def)

lemma and_then_eq_Inr:
  "and_then r f = Inr y \<longleftrightarrow> (\<exists>x. r = Inr x \<and> f x = Inr y)"
  by (cases r) simp_all

lemma unat_of_nat16: "n < 65536 \<Longrightarrow> unat (of_nat n :: 16 word) = n"
  by (simp add: unat_of_nat)

lemma unat_plus_of_nat16:
  "k + n < 65536 \<Longrightarrow> unat (of_nat k + of_nat n :: 16 word) = k + n"
  using unat_of_nat16 [of "k + n"] by simp


lemma unat_less_65536: "unat (c :: 16 word) < 65536"
  using unsigned_less [of c] by simp




section \<open>Facts about the encoding\<close>

lemma Encode_unescaped: "list_all uriUnescaped s \<Longrightarrow> Encode s = Inr s"
  by (induction s) simp_all

lemma uriUnescaped_ascii: "uriUnescaped c \<Longrightarrow> c \<noteq> 37 \<and> unat c < 128"
  by (auto simp: uriUnescaped_def Let_def)

lemma uriUnescaped_not_surrogate:
  "uriUnescaped c \<Longrightarrow> \<not> is_leading_surrogate c \<and> \<not> is_trailing_surrogate c"
  using uriUnescaped_ascii [of c]
  by (auto simp: is_leading_surrogate_def is_trailing_surrogate_def)

lemma leading_not_trailing: "is_leading_surrogate c \<Longrightarrow> \<not> is_trailing_surrogate c"
  by (auto simp: is_leading_surrogate_def is_trailing_surrogate_def)

lemma Encode_Cons_literal:
  "uriUnescaped c \<Longrightarrow> Encode (c # cs) = and_then (Encode cs) (\<lambda>r. Inr (c # r))"
  by simp

lemma Encode_Cons_single:
  "\<not> uriUnescaped c \<Longrightarrow> \<not> is_leading_surrogate c \<Longrightarrow> \<not> is_trailing_surrogate c \<Longrightarrow>
     Encode (c # cs) =
       and_then (Encode cs) (\<lambda>r. Inr (concat (map percent_octet (utf8 (unat c))) @ r))"
  by simp

lemma Encode_Cons_pair:
  assumes "is_leading_surrogate c" and "is_trailing_surrogate d"
  shows "Encode (c # d # ds) =
       and_then (Encode ds)
         (\<lambda>r. Inr (concat (map percent_octet (utf8 (pair_code_point c d))) @ r))"
proof -
  from assms(1) have "\<not> uriUnescaped c" "\<not> is_trailing_surrogate c"
    using uriUnescaped_not_surrogate [of c] leading_not_trailing [of c] by blast+
  with assms show ?thesis
    by (subst Encode.simps) simp
qed

lemma Encode_Cons_lone_trailing:
  assumes "is_trailing_surrogate c"
  shows "Encode (c # cs) = Inl URIError"
proof -
  from assms have "\<not> uriUnescaped c"
    using uriUnescaped_not_surrogate [of c] by blast
  with assms show ?thesis
    by (subst Encode.simps) simp
qed

lemma Encode_Cons_lone_leading:
  assumes "is_leading_surrogate c"
    and "\<forall>d ds. cs = d # ds \<longrightarrow> \<not> is_trailing_surrogate d"
  shows "Encode (c # cs) = Inl URIError"
proof -
  from assms(1) have "\<not> uriUnescaped c" "\<not> is_trailing_surrogate c"
    using uriUnescaped_not_surrogate [of c] leading_not_trailing [of c] by blast+
  with assms show ?thesis
    by (subst Encode.simps) (simp split: list.splits)
qed

lemma isWellFormed_Cons_plain:
  "\<not> is_leading_surrogate c \<Longrightarrow> \<not> is_trailing_surrogate c \<Longrightarrow>
     isWellFormed (c # cs) = isWellFormed cs"
  by simp

lemma isWellFormed_Cons_pair:
  "is_leading_surrogate c \<Longrightarrow> is_trailing_surrogate d \<Longrightarrow>
     isWellFormed (c # d # ds) = isWellFormed ds"
  by simp

lemma isWellFormed_Cons_lone_trailing:
  "is_trailing_surrogate c \<Longrightarrow> \<not> isWellFormed (c # cs)"
  using leading_not_trailing [of c] by auto

lemma isWellFormed_Cons_lone_leading:
  "is_leading_surrogate c \<Longrightarrow> (\<forall>d ds. cs = d # ds \<longrightarrow> \<not> is_trailing_surrogate d) \<Longrightarrow>
     \<not> isWellFormed (c # cs)"
  by (cases cs) auto

lemma Encode_Cons_cases:
  assumes "Encode (c # cs) = Inr e"
  obtains (literal) r where "uriUnescaped c" "Encode cs = Inr r" "e = c # r"
  | (single) r where "\<not> uriUnescaped c" "\<not> is_leading_surrogate c" "\<not> is_trailing_surrogate c"
      "Encode cs = Inr r" "e = concat (map percent_octet (utf8 (unat c))) @ r"
  | (pair) d ds r where "\<not> uriUnescaped c" "is_leading_surrogate c" "cs = d # ds"
      "is_trailing_surrogate d" "Encode ds = Inr r"
      "e = concat (map percent_octet (utf8 (pair_code_point c d))) @ r"
proof (cases "uriUnescaped c")
  case True
  with assms obtain r where "Encode cs = Inr r" "e = c # r"
    by (auto simp: and_then_eq_Inr)
  with True show ?thesis by (rule literal)
next
  case False
  show ?thesis
  proof (cases "\<not> is_leading_surrogate c \<and> \<not> is_trailing_surrogate c")
    case True
    with False assms obtain r where "Encode cs = Inr r"
      "e = concat (map percent_octet (utf8 (unat c))) @ r"
      by (auto simp: and_then_eq_Inr)
    with False True show ?thesis by (intro single) simp_all
  next
    case surrogate: False
    with False assms have nt: "\<not> is_trailing_surrogate c"
      by (auto split: if_splits)
    with surrogate have lead: "is_leading_surrogate c" by simp
    from False surrogate nt assms obtain d ds where cs: "cs = d # ds"
      by (cases cs) auto
    with False surrogate nt assms have td: "is_trailing_surrogate d"
      by (auto split: if_splits)
    with False surrogate nt assms cs obtain r where "Encode ds = Inr r"
      "e = concat (map percent_octet (utf8 (pair_code_point c d))) @ r"
      by (auto simp: and_then_eq_Inr)
    with False lead cs td show ?thesis by (intro pair)
  qed
qed

declare Encode.simps(2) [simp del] isWellFormed.simps(2) [simp del]

lemma Encode_cases:
  obtains (empty) "s = []"
  | (plain) c cs where "s = c # cs" "\<not> is_leading_surrogate c" "\<not> is_trailing_surrogate c"
      "isWellFormed s = isWellFormed cs"
      "\<exists>f. Encode s = and_then (Encode cs) (\<lambda>r. Inr (f r))"
  | (pair) c d ds where "s = c # d # ds" "is_leading_surrogate c" "is_trailing_surrogate d"
      "isWellFormed s = isWellFormed ds"
      "\<exists>f. Encode s = and_then (Encode ds) (\<lambda>r. Inr (f r))"
  | (lone) "\<not> isWellFormed s" "Encode s = Inl URIError"
proof (cases s)
  case Nil
  then show ?thesis by (rule empty)
next
  case (Cons c cs)
  consider (a) "\<not> is_leading_surrogate c" "\<not> is_trailing_surrogate c"
    | (b) "is_trailing_surrogate c"
    | (c) "is_leading_surrogate c" "\<exists>d ds. cs = d # ds \<and> is_trailing_surrogate d"
    | (d) "is_leading_surrogate c" "\<forall>d ds. cs = d # ds \<longrightarrow> \<not> is_trailing_surrogate d"
    by blast
  then show ?thesis
  proof cases
    case a
    have "\<exists>f. Encode (c # cs) = and_then (Encode cs) (\<lambda>r. Inr (f r))"
    proof (cases "uriUnescaped c")
      case True
      then have "Encode (c # cs) = and_then (Encode cs) (\<lambda>r. Inr (c # r))"
        by (rule Encode_Cons_literal)
      then show ?thesis by blast
    next
      case False
      with a have "Encode (c # cs) =
          and_then (Encode cs) (\<lambda>r. Inr (concat (map percent_octet (utf8 (unat c))) @ r))"
        by (intro Encode_Cons_single)
      then show ?thesis by blast
    qed
    moreover from a have "isWellFormed (c # cs) = isWellFormed cs"
      by (rule isWellFormed_Cons_plain)
    ultimately show ?thesis
      using a Cons by (intro plain [of c cs]) simp_all
  next
    case b
    then have "\<not> isWellFormed (c # cs)" by (rule isWellFormed_Cons_lone_trailing)
    moreover from b have "Encode (c # cs) = Inl URIError" by (rule Encode_Cons_lone_trailing)
    ultimately show ?thesis using Cons by (intro lone) simp_all
  next
    case c
    then obtain d ds where cs: "cs = d # ds" and d: "is_trailing_surrogate d" by blast
    from c(1) d have "Encode (c # d # ds) = and_then (Encode ds)
         (\<lambda>r. Inr (concat (map percent_octet (utf8 (pair_code_point c d))) @ r))"
      by (rule Encode_Cons_pair)
    then have "\<exists>f. Encode (c # d # ds) = and_then (Encode ds) (\<lambda>r. Inr (f r))"
      by blast
    moreover from c(1) d have "isWellFormed (c # d # ds) = isWellFormed ds"
      by (rule isWellFormed_Cons_pair)
    ultimately show ?thesis
      using c(1) d Cons cs by (intro pair [of c d ds]) simp_all
  next
    case d
    from d have "\<not> isWellFormed (c # cs)" by (rule isWellFormed_Cons_lone_leading)
    moreover from d have "Encode (c # cs) = Inl URIError" by (rule Encode_Cons_lone_leading)
    ultimately show ?thesis using Cons by (intro lone) simp_all
  qed
qed

lemma Encode_well_formed: "isWellFormed s \<Longrightarrow> \<exists>e. Encode s = Inr e"
proof (induction s rule: length_induct)
  case (1 s)
  show ?case
  proof (cases s rule: Encode_cases)
    case empty
    then show ?thesis by simp
  next
    case (plain c cs)
    from plain(1) have "length cs < length s" by simp
    with 1(1) have "isWellFormed cs \<longrightarrow> (\<exists>e. Encode cs = Inr e)" by blast
    moreover from 1(2) plain(4) have "isWellFormed cs" by simp
    ultimately obtain r where "Encode cs = Inr r" by blast
    with plain(5) show ?thesis by auto
  next
    case (pair c d ds)
    from pair(1) have "length ds < length s" by simp
    with 1(1) have "isWellFormed ds \<longrightarrow> (\<exists>e. Encode ds = Inr e)" by blast
    moreover from 1(2) pair(4) have "isWellFormed ds" by simp
    ultimately obtain r where "Encode ds = Inr r" by blast
    with pair(5) show ?thesis by auto
  next
    case lone
    with 1(2) show ?thesis by simp
  qed
qed

lemma Encode_ill_formed: "\<not> isWellFormed s \<Longrightarrow> Encode s = Inl URIError"
proof (induction s rule: length_induct)
  case (1 s)
  show ?case
  proof (cases s rule: Encode_cases)
    case empty
    with 1(2) show ?thesis by simp
  next
    case (plain c cs)
    from plain(1) have "length cs < length s" by simp
    with 1(1) have "\<not> isWellFormed cs \<longrightarrow> Encode cs = Inl URIError" by blast
    moreover from 1(2) plain(4) have "\<not> isWellFormed cs" by simp
    ultimately have "Encode cs = Inl URIError" by blast
    with plain(5) show ?thesis by auto
  next
    case (pair c d ds)
    from pair(1) have "length ds < length s" by simp
    with 1(1) have "\<not> isWellFormed ds \<longrightarrow> Encode ds = Inl URIError" by blast
    moreover from 1(2) pair(4) have "\<not> isWellFormed ds" by simp
    ultimately have "Encode ds = Inl URIError" by blast
    with pair(5) show ?thesis by auto
  next
    case lone
    then show ?thesis by simp
  qed
qed

lemma Encode_isWellFormed: "(\<exists>e. Encode s = Inr e) \<longleftrightarrow> isWellFormed s"
proof
  assume ex: "\<exists>e. Encode s = Inr e"
  show "isWellFormed s"
  proof (rule ccontr)
    assume "\<not> isWellFormed s"
    then have "Encode s = Inl URIError" by (rule Encode_ill_formed)
    with ex show False by simp
  qed
next
  assume "isWellFormed s"
  then show "\<exists>e. Encode s = Inr e" by (rule Encode_well_formed)
qed

lemma utf8_octets: "cp < 1114112 \<Longrightarrow> \<forall>b \<in> set (utf8 cp). b < 256"
  by (auto simp: utf8_def)

lemma hex_digit_safe: "n < 16 \<Longrightarrow> uriUnescaped (hex_digit n)"
proof -
  assume n: "n < 16"
  show ?thesis
  proof (cases "n < 10")
    case True
    then have "unat (of_nat 48 + of_nat n :: 16 word) = 48 + n"
      by (intro unat_plus_of_nat16) simp
    with True show ?thesis
      by (simp add: uriUnescaped_def hex_digit_def)
  next
    case False
    with n have "unat (of_nat 55 + of_nat n :: 16 word) = 55 + n"
      by (intro unat_plus_of_nat16) simp
    with False n show ?thesis
      by (simp add: uriUnescaped_def hex_digit_def)
  qed
qed

lemma percent_octet_safe:
  "b < 256 \<Longrightarrow> list_all (\<lambda>c. uriUnescaped c \<or> c = 37) (percent_octet b)"
  by (simp add: percent_octet_def hex_digit_safe)

lemma escapes_safe:
  assumes "cp < 1114112"
  shows "list_all (\<lambda>c. uriUnescaped c \<or> c = 37) (concat (map percent_octet (utf8 cp)))"
proof -
  have "\<forall>b \<in> set (utf8 cp). list_all (\<lambda>c. uriUnescaped c \<or> c = 37) (percent_octet b)"
    using utf8_octets [OF assms] percent_octet_safe by blast
  then show ?thesis
    by (simp add: list_all_iff)
qed

section \<open>Decoding inverts the encoding\<close>

lemma hex_value_hex_digit: "n < 16 \<Longrightarrow> hex_value (hex_digit n) = Some n"
proof -
  assume n: "n < 16"
  show ?thesis
  proof (cases "n < 10")
    case True
    then have "unat (of_nat 48 + of_nat n :: 16 word) = 48 + n"
      by (intro unat_plus_of_nat16) simp
    with True show ?thesis
      by (simp add: hex_value_def hex_digit_def)
  next
    case False
    with n have "unat (of_nat 55 + of_nat n :: 16 word) = 55 + n"
      by (intro unat_plus_of_nat16) simp
    with False n show ?thesis
      by (simp add: hex_value_def hex_digit_def)
  qed
qed

lemma unescape_percent_octet:
  assumes "b < 256"
  shows "unescape (percent_octet b @ r) = map_option ((#) b) (unescape r)"
proof -
  from assms have "b div 16 < 16" "b mod 16 < 16" by simp_all
  then have "hex_value (hex_digit (b div 16)) = Some (b div 16)"
    "hex_value (hex_digit (b mod 16)) = Some (b mod 16)"
    by (simp_all add: hex_value_hex_digit)
  then show ?thesis
    by (simp add: percent_octet_def)
qed

lemma unescape_octets:
  "\<forall>b \<in> set bs. b < 256 \<Longrightarrow>
     unescape (concat (map percent_octet bs) @ r) = map_option ((@) bs) (unescape r)"
proof (induction bs)
  case Nil
  show ?case by (simp add: option.map_ident)
next
  case (Cons b bs)
  then show ?case
    by (simp add: unescape_percent_octet option.map_comp comp_def)
qed

lemma split_64: "(cp::nat) mod 4096 = 64 * (cp div 64 mod 64) + cp mod 64"
  using mod_mult2_eq [of cp 64 64] by simp

lemma split_4096: "(cp::nat) mod 262144 = 4096 * (cp div 4096 mod 64) + cp mod 4096"
  using mod_mult2_eq [of cp 4096 64] by simp

lemma join_2: "(cp::nat) div 64 * 64 + cp mod 64 = cp"
  by simp

lemma join_3: "(cp::nat) div 4096 * 4096 + cp div 64 mod 64 * 64 + cp mod 64 = cp"
proof -
  have "cp div 4096 * 4096 + cp mod 4096 = cp" by simp
  then show ?thesis by (simp add: split_64)
qed

lemma join_4:
  "(cp::nat) div 262144 * 262144 + cp div 4096 mod 64 * 4096 + cp div 64 mod 64 * 64
     + cp mod 64 = cp"
proof -
  have "cp div 262144 * 262144 + cp mod 262144 = cp" by simp
  then show ?thesis by (simp add: split_4096 split_64)
qed

lemma utf8_decode_utf8:
  assumes "cp < 1114112"
  shows "utf8_decode (utf8 cp @ bs) = map_option ((#) cp) (utf8_decode bs)"
proof -
  consider "cp < 128" | "128 \<le> cp" "cp < 2048" | "2048 \<le> cp" "cp < 65536" | "65536 \<le> cp"
    by linarith
  then show ?thesis
  proof cases
    case 1
    then show ?thesis by (simp add: utf8_def)
  next
    case 2
    then have "cp < 32 * 64" by simp
    then have "cp div 64 < 32" by (rule less_mult_imp_div_less)
    with 2 show ?thesis
      by (simp add: utf8_def is_continuation_def join_2)
  next
    case 3
    then have "cp < 16 * 4096" by simp
    then have "cp div 4096 < 16" by (rule less_mult_imp_div_less)
    with 3 show ?thesis
      by (simp add: utf8_def is_continuation_def join_3)
  next
    case 4
    from assms have "cp < 8 * 262144" by simp
    then have "cp div 262144 < 8" by (rule less_mult_imp_div_less)
    with 4 show ?thesis
      by (simp add: utf8_def is_continuation_def join_4)
  qed
qed

lemma utf16_unat: "utf16 (unat c) = [c]"
  by (simp add: utf16_def unat_less_65536)

lemma pair_code_point_bound:
  assumes "is_leading_surrogate c" and "is_trailing_surrogate d"
  shows "pair_code_point c d < 1114112"
proof -
  from assms(1) have "unat c - 55296 \<le> 1023"
    by (auto simp: is_leading_surrogate_def)
  then have "(unat c - 55296) * 1024 \<le> 1023 * 1024"
    by (rule mult_le_mono1)
  moreover from assms(2) have "unat d - 56320 \<le> 1023"
    by (auto simp: is_trailing_surrogate_def)
  ultimately show ?thesis
    by (simp add: pair_code_point_def)
qed

lemma utf16_pair:
  assumes "is_leading_surrogate c" and "is_trailing_surrogate d"
  shows "utf16 (pair_code_point c d) = [c, d]"
proof -
  define a where "a = unat c - 55296"
  define b where "b = unat d - 56320"
  from assms have b: "b < 1024" and c: "55296 + a = unat c" and d: "56320 + b = unat d"
    by (auto simp: a_def b_def is_leading_surrogate_def is_trailing_surrogate_def)
  have p: "pair_code_point c d = a * 1024 + b + 65536"
    by (simp add: pair_code_point_def a_def b_def)
  from b have "(a * 1024 + b) div 1024 = a" "(a * 1024 + b) mod 1024 = b"
    by simp_all
  with p c d show ?thesis
    by (simp add: utf16_def)
qed

lemma percent_decode_Some_iff:
  "percent_decode e = Some s \<longleftrightarrow>
     (\<exists>bs cps. unescape e = Some bs \<and> utf8_decode bs = Some cps \<and> concat (map utf16 cps) = s)"
  by (auto simp: percent_decode_def split: option.splits)

lemma percent_decode_literal:
  assumes "uriUnescaped c" and "percent_decode r = Some t"
  shows "percent_decode (c # r) = Some (c # t)"
proof -
  from assms(2) obtain bs cps where
    u: "unescape r = Some bs" and d: "utf8_decode bs = Some cps" and t: "concat (map utf16 cps) = t"
    by (auto simp: percent_decode_Some_iff)
  from uriUnescaped_ascii [OF assms(1)] have a: "c \<noteq> 37" "unat c < 128" by simp_all
  from a u have "unescape (c # r) = Some (unat c # bs)" by simp
  moreover from a d have "utf8_decode (unat c # bs) = Some (unat c # cps)" by simp
  moreover from t have "concat (map utf16 (unat c # cps)) = c # t" by (simp add: utf16_unat)
  ultimately show ?thesis
    unfolding percent_decode_Some_iff by blast
qed

lemma percent_decode_escapes:
  assumes "cp < 1114112" and "percent_decode r = Some t"
  shows "percent_decode (concat (map percent_octet (utf8 cp)) @ r) = Some (utf16 cp @ t)"
proof -
  from assms(2) obtain bs cps where
    u: "unescape r = Some bs" and d: "utf8_decode bs = Some cps" and t: "concat (map utf16 cps) = t"
    by (auto simp: percent_decode_Some_iff)
  from u have "unescape (concat (map percent_octet (utf8 cp)) @ r) = Some (utf8 cp @ bs)"
    by (simp add: unescape_octets [OF utf8_octets [OF assms(1)]])
  moreover from d have "utf8_decode (utf8 cp @ bs) = Some (cp # cps)"
    by (simp add: utf8_decode_utf8 [OF assms(1)])
  moreover from t have "concat (map utf16 (cp # cps)) = utf16 cp @ t" by simp
  ultimately show ?thesis
    unfolding percent_decode_Some_iff by blast
qed

lemma percent_decode_Encode: "Encode s = Inr e \<Longrightarrow> percent_decode e = Some s"
proof (induction s arbitrary: e rule: length_induct)
  case (1 s)
  show ?case
  proof (cases s)
    case Nil
    with 1(2) show ?thesis by (simp add: percent_decode_def)
  next
    case (Cons c cs)
    with 1(2) have enc: "Encode (c # cs) = Inr e" by simp
    from enc show ?thesis
    proof (cases rule: Encode_Cons_cases)
      case (literal r)
      from 1(1) Cons literal(2) have "percent_decode r = Some cs" by simp
      with literal Cons show ?thesis by (simp add: percent_decode_literal)
    next
      case (single r)
      from 1(1) Cons single(4) have "percent_decode r = Some cs" by simp
      moreover have "unat c < 1114112" by (rule less_trans [OF unat_less_65536]) simp
      ultimately have "percent_decode e = Some (utf16 (unat c) @ cs)"
        unfolding single(5) by (intro percent_decode_escapes)
      with Cons show ?thesis by (simp add: utf16_unat)
    next
      case (pair d ds r)
      from 1(1) Cons pair(3,5) have "percent_decode r = Some ds" by simp
      moreover note pair_code_point_bound [OF pair(2,4)]
      ultimately have "percent_decode e = Some (utf16 (pair_code_point c d) @ ds)"
        unfolding pair(6) by (intro percent_decode_escapes)
      with Cons pair(3) show ?thesis by (simp add: utf16_pair [OF pair(2,4)])
    qed
  qed
qed

lemma Encode_safe:
  "Encode s = Inr e \<Longrightarrow> list_all (\<lambda>c. uriUnescaped c \<or> c = 37) e"
proof (induction s arbitrary: e rule: length_induct)
  case (1 s)
  show ?case
  proof (cases s)
    case Nil
    with 1(2) show ?thesis by simp
  next
    case (Cons c cs)
    with 1(2) have enc: "Encode (c # cs) = Inr e" by simp
    from enc show ?thesis
    proof (cases rule: Encode_Cons_cases)
      case (literal r)
      from Cons have "length cs < length s" by simp
      with 1(1) literal(2) have "list_all (\<lambda>c. uriUnescaped c \<or> c = 37) r" by blast
      with literal show ?thesis by simp
    next
      case (single r)
      from Cons have "length cs < length s" by simp
      with 1(1) single(4) have "list_all (\<lambda>c. uriUnescaped c \<or> c = 37) r" by blast
      moreover have "unat c < 1114112" by (rule less_trans [OF unat_less_65536]) simp
      ultimately show ?thesis
        unfolding single(5) by (simp add: escapes_safe)
    next
      case (pair d ds r)
      from Cons pair(3) have "length ds < length s" by simp
      with 1(1) pair(5) have "list_all (\<lambda>c. uriUnescaped c \<or> c = 37) r" by blast
      with pair_code_point_bound [OF pair(2,4)] show ?thesis
        unfolding pair(6) by (simp add: escapes_safe)
    qed
  qed
qed

section \<open>Facts about numbers and requests\<close>

lemma isSafeInteger_of_nat:
  "isSafeInteger (of_nat n) \<longleftrightarrow> n \<le> 9007199254740991"
proof -
  have "(of_nat n :: rat) \<le> of_nat 9007199254740991 \<longleftrightarrow> n \<le> 9007199254740991"
    by (rule of_nat_le_iff)
  then show ?thesis
    by (simp add: isSafeInteger_def)
qed

lemma Number_toString_of_nat:
  "n \<le> 9007199254740991 \<Longrightarrow> Number_toString shortest (Num (of_nat n)) = digits n"
  by (simp add: Number_toString_def isSafeInteger_of_nat)

lemma Number_toString_examples:
  "Number_toString shortest (Num 0) = js ''0''"
  "Number_toString shortest (Num 1) = js ''1''"
  "Number_toString shortest (Num 2) = js ''2''"
  "Number_toString shortest (Num 3) = js ''3''"
  "Number_toString shortest (Num 7) = js ''7''"
  "Number_toString shortest (Num 10) = js ''10''"
  "Number_toString shortest (Num 42) = js ''42''"
  "Number_toString shortest (Num 99) = js ''99''"
  using Number_toString_of_nat [of 0 shortest] Number_toString_of_nat [of 1 shortest]
    Number_toString_of_nat [of 2 shortest] Number_toString_of_nat [of 3 shortest]
    Number_toString_of_nat [of 7 shortest] Number_toString_of_nat [of 10 shortest]
    Number_toString_of_nat [of 42 shortest] Number_toString_of_nat [of 99 shortest]
  by (simp_all add: digits.simps js_def)




lemma encodeURIComponent_JString [simp]:
  "encodeURIComponent shortest (JString s) = Encode s"
  by (simp add: encodeURIComponent_def)

lemma encodeURIComponent_JNumber [simp]:
  "encodeURIComponent shortest (JNumber n) = Encode (Number_toString shortest n)"
  by (simp add: encodeURIComponent_def)

lemma encoded_segment:
  assumes "Encode s = Inr e"
  shows "list_all (\<lambda>c. uriUnescaped c \<or> c = 37) e \<and> percent_decode e = Some s"
  using assms by (simp add: Encode_safe percent_decode_Encode)

lemma fetchJSON_response:
  assumes "fetch (baseUrl this @ path)
             ([js ''method'' \<mapsto> OptString (js ''GET''),
               js ''agent'' \<mapsto> OptAgent (agent this),
               js ''headers'' \<mapsto> OptHeaders (defaultHeaders this)] ++ options) = Inr res"
  shows "fetchJSON fetch this path options =
           (if \<not> ok res then Inl (Error (js ''HTTP error '' @ digits (status res)))
            else (case json res of None \<Rightarrow> Inl SyntaxError | Some v \<Rightarrow> Inr v))"
  using assms by (simp add: fetchJSON_def Let_def)

lemma fetchJSON_respond_with:
  "fetchJSON (respond_with res) this path options =
           (if \<not> ok res then Inl (Error (js ''HTTP error '' @ digits (status res)))
            else (case json res of None \<Rightarrow> Inl SyntaxError | Some v \<Rightarrow> Inr v))"
  using fetchJSON_response [of "respond_with res" this path options res]
  by (simp add: respond_with_def)

lemma fetchJSON_respond_200:
  "fetchJSON (respond_with \<lparr>status = 200, json = Some body\<rparr>) this path options = Inr body"
  by (simp add: fetchJSON_respond_with ok_def)

lemma fetchJSON_echo:
  "fetchJSON echo this path options = Inr (JString (baseUrl this @ path))"
  by (simp add: fetchJSON_def Let_def echo_def ok_def)

lemma fetchJSON_echo_posts:
  "fetchJSON echo_posts this path options
     = Inr (JObject [(js ''posts'', JString (baseUrl this @ path))])"
  by (simp add: fetchJSON_def Let_def echo_posts_def ok_def)

lemma fetchJSON_agree:
  assumes "fetch' (baseUrl this @ path) (request_options this)
             = fetch (baseUrl this @ path) (request_options this)"
  shows "fetchJSON fetch' this path Map.empty = fetchJSON fetch this path Map.empty"
  using assms by (simp add: fetchJSON_def Let_def request_options_def)

lemma path_foo:
  "getPostsByTag_path shortest (JString (js ''foo'')) (Num 0) = Inr (js ''/get/tag/foo'')"
  by (simp add: getPostsByTag_path_def Encode_unescaped js_def uriUnescaped_def)

lemma path_user_2:
  "getPostsByUser_path shortest (JString (js ''user'')) (Num 2) = Inr (js ''/view/album/user/3/2'')"
  by (simp add: getPostsByUser_path_def Encode_unescaped Number_toString_examples)
    (simp add: js_def uriUnescaped_def Encode_unescaped)

lemma path_user_1:
  "getLikes_path shortest (JString (js ''user'')) (Num 1) = Inr (js ''/view/album/user/o/1'')"
  by (simp add: getLikes_path_def Encode_unescaped Number_toString_examples)
    (simp add: js_def uriUnescaped_def Encode_unescaped)


text \<open>The three list-fetch operations end alike: \<open>return response.posts || []\<close>.\<close>

lemma list_fetch_results:
  "getPostsByTag_path shortest tag page = Inr path \<Longrightarrow>
   fetchJSON fetch this path Map.empty = Inr body \<Longrightarrow>
     getPostsByTag shortest fetch this tag page =
       and_then (Get body (js ''posts''))
         (\<lambda>posts. Inr (if ToBoolean posts then posts else JArray []))"
  "getPostsByUser_path shortest username page = Inr path \<Longrightarrow>
   fetchJSON fetch this path Map.empty = Inr body \<Longrightarrow>
     getPostsByUser shortest fetch this username page =
       and_then (Get body (js ''posts''))
         (\<lambda>posts. Inr (if ToBoolean posts then posts else JArray []))"
  "getLikes_path shortest username page = Inr path \<Longrightarrow>
   fetchJSON fetch this path Map.empty = Inr body \<Longrightarrow>
     getLikes shortest fetch this username page =
       and_then (Get body (js ''posts''))
         (\<lambda>posts. Inr (if ToBoolean posts then posts else JArray []))"
  by (simp_all add: getPostsByTag_def getPostsByUser_def getLikes_def)

lemma baseUrl_api: "baseUrl api = js ''https://solar.furtrack.com''"
  by (simp add: api_def new_FurtrackAPI_def)

lemma fetchJSON_same_answer:
  "same_answer fetch' fetch this path \<Longrightarrow>
     fetchJSON fetch' this path Map.empty = fetchJSON fetch this path Map.empty"
  unfolding same_answer_def by (rule fetchJSON_agree)

text \<open>
  What an operation requests, given its path: asked of the echoing network it returns
  the URL made of the base URL and the path, and its result is the same on two networks
  that answer the request for that path alike.
\<close>

lemma getTag_requests:
  assumes "getTag_path shortest tag = Inr path"
  shows "getTag shortest echo this tag = Inr (JString (baseUrl this @ path))"
    and "same_answer fetch' fetch this path \<Longrightarrow>
           getTag shortest fetch' this tag = getTag shortest fetch this tag"
  using assms fetchJSON_same_answer [of fetch' fetch this path]
  by (simp_all add: getTag_def fetchJSON_echo)

lemma getUser_requests:
  assumes "getUser_path shortest username = Inr path"
  shows "getUser shortest echo this username = Inr (JString (baseUrl this @ path))"
    and "same_answer fetch' fetch this path \<Longrightarrow>
           getUser shortest fetch' this username = getUser shortest fetch this username"
  using assms fetchJSON_same_answer [of fetch' fetch this path]
  by (simp_all add: getUser_def fetchJSON_echo)

lemma getPost_requests:
  assumes "getPost_path shortest postId = Inr path"
  shows "getPost shortest echo this postId = Inr (JString (baseUrl this @ path))"
    and "same_answer fetch' fetch this path \<Longrightarrow>
           getPost shortest fetch' this postId = getPost shortest fetch this postId"
  using assms fetchJSON_same_answer [of fetch' fetch this path]
  by (simp_all add: getPost_def fetchJSON_echo)

lemma getAlbum_requests:
  assumes "getAlbum_path shortest username albumId page = Inr path"
  shows "getAlbum shortest echo this username albumId page
           = Inr (JString (baseUrl this @ path))"
    and "same_answer fetch' fetch this path \<Longrightarrow>
           getAlbum shortest fetch' this username albumId page
             = getAlbum shortest fetch this username albumId page"
  using assms fetchJSON_same_answer [of fetch' fetch this path]
  by (simp_all add: getAlbum_def fetchJSON_echo)

lemma getPostsByTag_requests:
  assumes "getPostsByTag_path shortest tag page = Inr path"
  shows "getPostsByTag shortest echo_posts this tag page
           = Inr (JString (baseUrl this @ path))"
    and "same_answer fetch' fetch this path \<Longrightarrow>
           getPostsByTag shortest fetch' this tag page
             = getPostsByTag shortest fetch this tag page"
proof -
  from assms have "path \<noteq> []"
    by (auto simp: getPostsByTag_path_def and_then_eq_Inr js_def)
  with assms show "getPostsByTag shortest echo_posts this tag page
           = Inr (JString (baseUrl this @ path))"
    by (simp add: getPostsByTag_def fetchJSON_echo_posts)
  from assms show "same_answer fetch' fetch this path \<Longrightarrow>
           getPostsByTag shortest fetch' this tag page
             = getPostsByTag shortest fetch this tag page"
    using fetchJSON_same_answer [of fetch' fetch this path] by (simp add: getPostsByTag_def)
qed

lemma getPostsByUser_requests:
  assumes "getPostsByUser_path shortest username page = Inr path"
  shows "getPostsByUser shortest echo_posts this username page
           = Inr (JString (baseUrl this @ path))"
    and "same_answer fetch' fetch this path \<Longrightarrow>
           getPostsByUser shortest fetch' this username page
             = getPostsByUser shortest fetch this username page"
proof -
  from assms have "path \<noteq> []"
    by (auto simp: getPostsByUser_path_def and_then_eq_Inr js_def)
  with assms show "getPostsByUser shortest echo_posts this username page
           = Inr (JString (baseUrl this @ path))"
    by (simp add: getPostsByUser_def fetchJSON_echo_posts)
  from assms show "same_answer fetch' fetch this path \<Longrightarrow>
           getPostsByUser shortest fetch' this username page
             = getPostsByUser shortest fetch this username page"
    using fetchJSON_same_answer [of fetch' fetch this path] by (simp add: getPostsByUser_def)
qed

lemma getLikes_requests:
  assumes "getLikes_path shortest username page = Inr path"
  shows "getLikes shortest echo_posts this username page
           = Inr (JString (baseUrl this @ path))"
    and "same_answer fetch' fetch this path \<Longrightarrow>
           getLikes shortest fetch' this username page
             = getLikes shortest fetch this username page"
proof -
  from assms have "path \<noteq> []"
    by (auto simp: getLikes_path_def and_then_eq_Inr js_def)
  with assms show "getLikes shortest echo_posts this username page
           = Inr (JString (baseUrl this @ path))"
    by (simp add: getLikes_def fetchJSON_echo_posts)
  from assms show "same_answer fetch' fetch this path \<Longrightarrow>
           getLikes shortest fetch' this username page
             = getLikes shortest fetch this username page"
    using fetchJSON_same_answer [of fetch' fetch this path] by (simp add: getLikes_def)
qed


lemma getPost_respond_200:
  "getPost_path shortest postId = Inr path \<Longrightarrow>
     getPost shortest (respond_with \<lparr>status = 200, json = Some body\<rparr>) this postId = Inr body"
  by (simp add: getPost_def fetchJSON_respond_200)

lemma path_post_99: "getPost_path shortest (JNumber (Num 99)) = Inr (js ''/view/post/99'')"
  by (simp add: getPost_path_def Number_toString_examples)
    (simp add: Encode_unescaped js_def uriUnescaped_def)

section \<open>The claims\<close>

text \<open>
  C1. For every tag string \<open>s\<close>: when \<open>s\<close> starts with \<open>"1:"\<close>, \<open>parseTag s\<close> is the
  character type with the first two code units of \<open>s\<close> removed; in the same way \<open>"2:"\<close>
  gives maker, \<open>"3:"\<close> photographer and \<open>"5:"\<close> event; the one-character prefix \<open>"6"\<close>
  gives species, with only the first code unit removed; and when \<open>s\<close> starts with none
  of the five prefixes, \<open>parseTag s\<close> is the general type with \<open>s\<close> unchanged.
\<close>

theorem parseTag_prefix_rules:
  "(prefix (js ''1:'') s \<longrightarrow> parseTag s = \<lparr>type = TagTypes_Character, value = drop 2 s\<rparr>) \<and>
   (prefix (js ''2:'') s \<longrightarrow> parseTag s = \<lparr>type = TagTypes_Maker, value = drop 2 s\<rparr>) \<and>
   (prefix (js ''3:'') s \<longrightarrow> parseTag s = \<lparr>type = TagTypes_Photographer, value = drop 2 s\<rparr>) \<and>
   (prefix (js ''5:'') s \<longrightarrow> parseTag s = \<lparr>type = TagTypes_Event, value = drop 2 s\<rparr>) \<and>
   (prefix (js ''6'') s \<longrightarrow> parseTag s = \<lparr>type = TagTypes_Species, value = drop 1 s\<rparr>) \<and>
   (\<not> prefix (js ''1:'') s \<and> \<not> prefix (js ''2:'') s \<and> \<not> prefix (js ''3:'') s \<and>
    \<not> prefix (js ''5:'') s \<and> \<not> prefix (js ''6'') s \<longrightarrow>
      parseTag s = \<lparr>type = TagTypes_General, value = s\<rparr>)"
  unfolding parseTag_unfold startsWith_prefix
  by (auto simp: js_def prefix_def)

text \<open>The six tags of the test suite, one for each rule.\<close>

theorem parseTag_prefix_rules_witness:
  "prefix (js ''1:'') (js ''1:Fluffy'') \<and>
   parseTag (js ''1:Fluffy'') = \<lparr>type = js ''character'', value = js ''Fluffy''\<rparr> \<and>
   prefix (js ''2:'') (js ''2:MakerName'') \<and>
   parseTag (js ''2:MakerName'') = \<lparr>type = js ''maker'', value = js ''MakerName''\<rparr> \<and>
   prefix (js ''3:'') (js ''3:PhotoGuy'') \<and>
   parseTag (js ''3:PhotoGuy'') = \<lparr>type = js ''photographer'', value = js ''PhotoGuy''\<rparr> \<and>
   prefix (js ''5:'') (js ''5:SomeEvent'') \<and>
   parseTag (js ''5:SomeEvent'') = \<lparr>type = js ''event'', value = js ''SomeEvent''\<rparr> \<and>
   prefix (js ''6'') (js ''6Wolf'') \<and>
   parseTag (js ''6Wolf'') = \<lparr>type = js ''species'', value = js ''Wolf''\<rparr> \<and>
   \<not> prefix (js ''1:'') (js ''randomtag'') \<and> \<not> prefix (js ''2:'') (js ''randomtag'') \<and>
   \<not> prefix (js ''3:'') (js ''randomtag'') \<and> \<not> prefix (js ''5:'') (js ''randomtag'') \<and>
   \<not> prefix (js ''6'') (js ''randomtag'') \<and>
   parseTag (js ''randomtag'') = \<lparr>type = js ''general'', value = js ''randomtag''\<rparr>"
  using parseTag_prefix_rules [of "js ''1:Fluffy''"] parseTag_prefix_rules [of "js ''2:MakerName''"]
    parseTag_prefix_rules [of "js ''3:PhotoGuy''"] parseTag_prefix_rules [of "js ''5:SomeEvent''"]
    parseTag_prefix_rules [of "js ''6Wolf''"] parseTag_prefix_rules [of "js ''randomtag''"]
  by (simp add: js_def TagTypes_Character_def TagTypes_Maker_def TagTypes_Photographer_def
      TagTypes_Event_def TagTypes_Species_def TagTypes_General_def)

text \<open>
  C2. \<open>parseTag\<close> computes the same result as the reference classifier that tries the
  rules in declaration order and lets the first textual prefix win, for every string.
  The implementation iterates over \<open>Object.entries\<close>, which yields \<open>"6"\<close> first (see
  \<open>entries_tagTypePrefixes\<close>); no string starts with two of the prefixes, so the results
  agree all the same.
\<close>

theorem parseTag_refines_first_match:
  "parseTag s = first_match_reference s"
  unfolding parseTag_unfold first_match_reference_unfold startsWith_prefix
  by (auto simp: js_def prefix_def TagTypes_Character_def TagTypes_Maker_def
      TagTypes_Photographer_def TagTypes_Event_def TagTypes_Species_def TagTypes_General_def)

theorem parseTag_refines_first_match_witness:
  "parseTag (js ''6Wolf'') = first_match_reference (js ''6Wolf'') \<and>
   first_match_reference (js ''6Wolf'') = \<lparr>type = js ''species'', value = js ''Wolf''\<rparr> \<and>
   parseTag (js ''1:6'') = first_match_reference (js ''1:6'') \<and>
   first_match_reference (js ''1:6'') = \<lparr>type = js ''character'', value = js ''6''\<rparr>"
  using parseTag_refines_first_match [of "js ''6Wolf''"] parseTag_refines_first_match [of "js ''1:6''"]
  by (simp add: first_match_reference_unfold js_def)



text \<open>
  C4, as the specification states it: each list-fetch operation returns the value of
  the \<open>posts\<close> field of the body whenever the field is present, and the empty sequence
  whenever the key is absent. The code does neither for every body: for the body
  \<open>{posts: null}\<close> the field is present with the value \<open>null\<close> and the three operations
  return \<open>[]\<close>, since \<open>response.posts || []\<close> replaces every falsy value; and for the
  body \<open>null\<close>, which has no \<open>posts\<close> key, the property access throws a TypeError.
\<close>

theorem posts_field_returned_counterexample:
  "map_of [(js ''posts'', JNull)] (js ''posts'') = Some JNull \<and>
   getPostsByTag shortest_stub
     (respond_with \<lparr>status = 200, json = Some (JObject [(js ''posts'', JNull)])\<rparr>)
     api (JString (js ''foo'')) (Num 0) = Inr (JArray []) \<and>
   getPostsByUser shortest_stub
     (respond_with \<lparr>status = 200, json = Some (JObject [(js ''posts'', JNull)])\<rparr>)
     api (JString (js ''user'')) (Num 2) = Inr (JArray []) \<and>
   getLikes shortest_stub
     (respond_with \<lparr>status = 200, json = Some (JObject [(js ''posts'', JNull)])\<rparr>)
     api (JString (js ''user'')) (Num 1) = Inr (JArray []) \<and>
   Inr (JArray []) \<noteq> (Inr JNull :: error + jsvalue) \<and>
   getPostsByTag shortest_stub (respond_with \<lparr>status = 200, json = Some JNull\<rparr>)
     api (JString (js ''foo'')) (Num 0) = Inl TypeError"
  by (simp add: list_fetch_results(1) [OF path_foo fetchJSON_respond_200]
      list_fetch_results(2) [OF path_user_2 fetchJSON_respond_200]
      list_fetch_results(3) [OF path_user_1 fetchJSON_respond_200])

text \<open>
  C4, amended: for every response body other than \<open>null\<close> (a decoded body is never
  \<open>undefined\<close>), each list-fetch operation returns the value of the \<open>posts\<close> field
  when it is present and truthy (every array, the empty one too, every object, \<open>true\<close>,
  a number other than zero, a non-empty string), and the empty sequence when the key is
  absent: the body is an object without it, or no object at all.
\<close>

theorem list_fetch_unwraps_posts:
  assumes "fetchJSON fetch this path Map.empty = Inr body"
    and "body \<noteq> JNull" and "body \<noteq> JUndefined"
  shows
    "(\<forall>props v. body = JObject props \<and> map_of props (js ''posts'') = Some v \<and> ToBoolean v \<longrightarrow>
        (getPostsByTag_path shortest tag page = Inr path \<longrightarrow>
           getPostsByTag shortest fetch this tag page = Inr v) \<and>
        (getPostsByUser_path shortest username page = Inr path \<longrightarrow>
           getPostsByUser shortest fetch this username page = Inr v) \<and>
        (getLikes_path shortest username page = Inr path \<longrightarrow>
           getLikes shortest fetch this username page = Inr v)) \<and>
     ((\<forall>props. body = JObject props \<longrightarrow> map_of props (js ''posts'') = None) \<longrightarrow>
        (getPostsByTag_path shortest tag page = Inr path \<longrightarrow>
           getPostsByTag shortest fetch this tag page = Inr (JArray [])) \<and>
        (getPostsByUser_path shortest username page = Inr path \<longrightarrow>
           getPostsByUser shortest fetch this username page = Inr (JArray [])) \<and>
        (getLikes_path shortest username page = Inr path \<longrightarrow>
           getLikes shortest fetch this username page = Inr (JArray [])))"
proof -
  have absent: "Get body (js ''posts'') = Inr JUndefined"
    if "\<forall>props. body = JObject props \<longrightarrow> map_of props (js ''posts'') = None"
    using that assms(2,3) by (cases body) simp_all
  show ?thesis
    using assms(1) by (auto simp: list_fetch_results absent)
qed

text \<open>The bodies \<open>{posts: [1, 2]}\<close> and \<open>{}\<close> of the specification, and a string.\<close>

theorem list_fetch_unwraps_posts_witness:
  "fetchJSON
     (respond_with
        \<lparr>status = 200, json = Some (JObject [(js ''posts'', JArray [JNumber (Num 1), JNumber (Num 2)])])\<rparr>)
     (new_FurtrackAPI None Map.empty) (js ''/get/tag/foo'') Map.empty
     = Inr (JObject [(js ''posts'', JArray [JNumber (Num 1), JNumber (Num 2)])]) \<and>
   map_of [(js ''posts'', JArray [JNumber (Num 1), JNumber (Num 2)])] (js ''posts'')
     = Some (JArray [JNumber (Num 1), JNumber (Num 2)]) \<and>
   ToBoolean (JArray [JNumber (Num 1), JNumber (Num 2)]) \<and>
   getPostsByTag_path shortest_stub (JString (js ''foo'')) (Num 0) = Inr (js ''/get/tag/foo'') \<and>
   getPostsByTag shortest_stub
     (respond_with
        \<lparr>status = 200, json = Some (JObject [(js ''posts'', JArray [JNumber (Num 1), JNumber (Num 2)])])\<rparr>)
     (new_FurtrackAPI None Map.empty) (JString (js ''foo'')) (Num 0)
     = Inr (JArray [JNumber (Num 1), JNumber (Num 2)]) \<and>
   fetchJSON (respond_with \<lparr>status = 200, json = Some (JObject [])\<rparr>)
     (new_FurtrackAPI None Map.empty) (js ''/get/tag/foo'') Map.empty = Inr (JObject []) \<and>
   map_of ([] :: (jsstring \<times> jsvalue) list) (js ''posts'') = None \<and>
   getPostsByTag shortest_stub (respond_with \<lparr>status = 200, json = Some (JObject [])\<rparr>)
     (new_FurtrackAPI None Map.empty) (JString (js ''foo'')) (Num 0) = Inr (JArray []) \<and>
   getPostsByTag shortest_stub (respond_with \<lparr>status = 200, json = Some (JString (js ''none''))\<rparr>)
     (new_FurtrackAPI None Map.empty) (JString (js ''foo'')) (Num 0) = Inr (JArray [])"
proof -
  let ?api = "new_FurtrackAPI None Map.empty"
  let ?posts = "JArray [JNumber (Num 1), JNumber (Num 2)]"
  let ?full = "\<lparr>status = 200, json = Some (JObject [(js ''posts'', ?posts)])\<rparr>"
  let ?none = "\<lparr>status = 200, json = Some (JObject [])\<rparr>"
  let ?text = "\<lparr>status = 200, json = Some (JString (js ''none''))\<rparr>"
  have f1: "fetchJSON (respond_with ?full) ?api (js ''/get/tag/foo'') Map.empty
      = Inr (JObject [(js ''posts'', ?posts)])"
    by (rule fetchJSON_respond_200)
  have f2: "fetchJSON (respond_with ?none) ?api (js ''/get/tag/foo'') Map.empty = Inr (JObject [])"
    by (rule fetchJSON_respond_200)
  have f3: "fetchJSON (respond_with ?text) ?api (js ''/get/tag/foo'') Map.empty
      = Inr (JString (js ''none''))"
    by (rule fetchJSON_respond_200)
  have m1: "map_of [(js ''posts'', ?posts)] (js ''posts'') = Some ?posts" by simp
  have m2: "map_of ([] :: (jsstring \<times> jsvalue) list) (js ''posts'') = None" by simp
  have t: "ToBoolean ?posts" by simp
  note w1 = list_fetch_unwraps_posts
    [where fetch = "respond_with ?full" and this = ?api and path = "js ''/get/tag/foo''"
       and body = "JObject [(js ''posts'', ?posts)]" and tag = "JString (js ''foo'')"
       and page = "Num 0", OF f1]
  note w2 = list_fetch_unwraps_posts
    [where fetch = "respond_with ?none" and this = ?api and path = "js ''/get/tag/foo''"
       and body = "JObject []" and tag = "JString (js ''foo'')" and page = "Num 0", OF f2]
  note w3 = list_fetch_unwraps_posts
    [where fetch = "respond_with ?text" and this = ?api and path = "js ''/get/tag/foo''"
       and body = "JString (js ''none'')" and tag = "JString (js ''foo'')" and page = "Num 0", OF f3]
  from w1 m1 t path_foo have r1: "getPostsByTag shortest_stub (respond_with ?full) ?api (JString (js ''foo'')) (Num 0)
      = Inr ?posts" by simp
  from w2 m2 path_foo have r2: "getPostsByTag shortest_stub (respond_with ?none) ?api (JString (js ''foo'')) (Num 0)
      = Inr (JArray [])" by simp
  from w3 path_foo have r3: "getPostsByTag shortest_stub (respond_with ?text) ?api (JString (js ''foo'')) (Num 0)
      = Inr (JArray [])" by simp
  from f1 m1 t path_foo r1 f2 m2 r2 r3 show ?thesis by blast
qed

text \<open>
  C5. When \<open>fetch\<close> answers a request with a response whose status is not a success,
  \<open>fetchJSON\<close> fails with the error \<open>HTTP error N\<close>, \<open>N\<close> the decimal numeral of the
  status, whatever the body is (the result is the same for every other body); when the
  status is a success, the decoded body is returned (a SyntaxError when the body is not
  JSON); so \<open>fetchJSON\<close> fails with an \<open>Error\<close> exactly when the status is not a
  success. Every network operation fails with the same error then.
\<close>

theorem fetchJSON_fails_iff_not_ok:
  assumes "fetch (baseUrl this @ path)
             ([js ''method'' \<mapsto> OptString (js ''GET''),
               js ''agent'' \<mapsto> OptAgent (agent this),
               js ''headers'' \<mapsto> OptHeaders (defaultHeaders this)] ++ options) = Inr res"
  shows
    "(\<not> ok res \<longrightarrow>
        fetchJSON fetch this path options
          = Inl (Error (js ''HTTP error '' @ digits (status res)))) \<and>
     (\<not> ok res \<longrightarrow>
        fetchJSON (respond_with (res\<lparr>json := other_body\<rparr>)) this path options
          = fetchJSON fetch this path options) \<and>
     (ok res \<longrightarrow>
        fetchJSON fetch this path options
          = (case json res of Some v \<Rightarrow> Inr v | None \<Rightarrow> Inl SyntaxError)) \<and>
     ((\<exists>message. fetchJSON fetch this path options = Inl (Error message)) \<longleftrightarrow> \<not> ok res) \<and>
     (\<not> ok res \<and> options = Map.empty \<longrightarrow>
        (getTag_path shortest tag = Inr path \<longrightarrow>
           getTag shortest fetch this tag = Inl (Error (js ''HTTP error '' @ digits (status res)))) \<and>
        (getUser_path shortest username = Inr path \<longrightarrow>
           getUser shortest fetch this username = Inl (Error (js ''HTTP error '' @ digits (status res)))) \<and>
        (getPost_path shortest postId = Inr path \<longrightarrow>
           getPost shortest fetch this postId = Inl (Error (js ''HTTP error '' @ digits (status res))) \<and>
           getThumbnail shortest fetch this postId
             = Inl (Error (js ''HTTP error '' @ digits (status res)))) \<and>
        (getPostsByTag_path shortest tag page = Inr path \<longrightarrow>
           getPostsByTag shortest fetch this tag page
             = Inl (Error (js ''HTTP error '' @ digits (status res)))) \<and>
        (getPostsByUser_path shortest username page = Inr path \<longrightarrow>
           getPostsByUser shortest fetch this username page
             = Inl (Error (js ''HTTP error '' @ digits (status res)))) \<and>
        (getLikes_path shortest username page = Inr path \<longrightarrow>
           getLikes shortest fetch this username page
             = Inl (Error (js ''HTTP error '' @ digits (status res)))) \<and>
        (getAlbum_path shortest username albumId page = Inr path \<longrightarrow>
           getAlbum shortest fetch this username albumId page
             = Inl (Error (js ''HTTP error '' @ digits (status res)))))"
proof -
  note r = fetchJSON_response [of fetch this path options res, OF assms]
  have ok': "ok (res\<lparr>json := other_body\<rparr>) = ok res"
    by (simp add: ok_def)
  have a: "\<not> ok res \<longrightarrow>
        fetchJSON fetch this path options
          = Inl (Error (js ''HTTP error '' @ digits (status res)))"
    by (simp add: r)
  have b: "\<not> ok res \<longrightarrow>
        fetchJSON (respond_with (res\<lparr>json := other_body\<rparr>)) this path options
          = fetchJSON fetch this path options"
    by (simp add: r fetchJSON_respond_with ok')
  have c: "ok res \<longrightarrow>
        fetchJSON fetch this path options
          = (case json res of Some v \<Rightarrow> Inr v | None \<Rightarrow> Inl SyntaxError)"
    by (simp add: r split: option.splits)
  have d: "(\<exists>message. fetchJSON fetch this path options = Inl (Error message)) \<longleftrightarrow> \<not> ok res"
    by (simp add: r split: option.splits)
  have e: "\<not> ok res \<and> options = Map.empty \<longrightarrow>
        (getTag_path shortest tag = Inr path \<longrightarrow>
           getTag shortest fetch this tag = Inl (Error (js ''HTTP error '' @ digits (status res)))) \<and>
        (getUser_path shortest username = Inr path \<longrightarrow>
           getUser shortest fetch this username = Inl (Error (js ''HTTP error '' @ digits (status res)))) \<and>
        (getPost_path shortest postId = Inr path \<longrightarrow>
           getPost shortest fetch this postId = Inl (Error (js ''HTTP error '' @ digits (status res))) \<and>
           getThumbnail shortest fetch this postId
             = Inl (Error (js ''HTTP error '' @ digits (status res)))) \<and>
        (getPostsByTag_path shortest tag page = Inr path \<longrightarrow>
           getPostsByTag shortest fetch this tag page
             = Inl (Error (js ''HTTP error '' @ digits (status res)))) \<and>
        (getPostsByUser_path shortest username page = Inr path \<longrightarrow>
           getPostsByUser shortest fetch this username page
             = Inl (Error (js ''HTTP error '' @ digits (status res)))) \<and>
        (getLikes_path shortest username page = Inr path \<longrightarrow>
           getLikes shortest fetch this username page
             = Inl (Error (js ''HTTP error '' @ digits (status res)))) \<and>
        (getAlbum_path shortest username albumId page = Inr path \<longrightarrow>
           getAlbum shortest fetch this username albumId page
             = Inl (Error (js ''HTTP error '' @ digits (status res))))"
  proof (intro impI, elim conjE)
    assume "\<not> ok res" and "options = Map.empty"
    with a have f: "fetchJSON fetch this path Map.empty
        = Inl (Error (js ''HTTP error '' @ digits (status res)))"
      by simp
    show "(getTag_path shortest tag = Inr path \<longrightarrow>
           getTag shortest fetch this tag = Inl (Error (js ''HTTP error '' @ digits (status res)))) \<and>
        (getUser_path shortest username = Inr path \<longrightarrow>
           getUser shortest fetch this username = Inl (Error (js ''HTTP error '' @ digits (status res)))) \<and>
        (getPost_path shortest postId = Inr path \<longrightarrow>
           getPost shortest fetch this postId = Inl (Error (js ''HTTP error '' @ digits (status res))) \<and>
           getThumbnail shortest fetch this postId
             = Inl (Error (js ''HTTP error '' @ digits (status res)))) \<and>
        (getPostsByTag_path shortest tag page = Inr path \<longrightarrow>
           getPostsByTag shortest fetch this tag page
             = Inl (Error (js ''HTTP error '' @ digits (status res)))) \<and>
        (getPostsByUser_path shortest username page = Inr path \<longrightarrow>
           getPostsByUser shortest fetch this username page
             = Inl (Error (js ''HTTP error '' @ digits (status res)))) \<and>
        (getLikes_path shortest username page = Inr path \<longrightarrow>
           getLikes shortest fetch this username page
             = Inl (Error (js ''HTTP error '' @ digits (status res)))) \<and>
        (getAlbum_path shortest username albumId page = Inr path \<longrightarrow>
           getAlbum shortest fetch this username albumId page
             = Inl (Error (js ''HTTP error '' @ digits (status res))))"
      by (simp add: getTag_def getUser_def getPost_def getThumbnail_def getPostsByTag_def
          getPostsByUser_def getLikes_def getAlbum_def f)
  qed
  from a b c d e show ?thesis by blast
qed

text \<open>A response with status 404, and one with status 200.\<close>

theorem fetchJSON_fails_iff_not_ok_witness:
  "respond_with \<lparr>status = 404, json = Some (JString (js ''Not Found''))\<rparr>
     (baseUrl (new_FurtrackAPI None Map.empty) @ js ''/get/index/foo'')
     ([js ''method'' \<mapsto> OptString (js ''GET''),
       js ''agent'' \<mapsto> OptAgent (agent (new_FurtrackAPI None Map.empty)),
       js ''headers'' \<mapsto> OptHeaders (defaultHeaders (new_FurtrackAPI None Map.empty))]
      ++ Map.empty)
     = Inr \<lparr>status = 404, json = Some (JString (js ''Not Found''))\<rparr> \<and>
   \<not> ok \<lparr>status = 404, json = Some (JString (js ''Not Found''))\<rparr> \<and>
   getTag_path shortest_stub (JString (js ''foo'')) = Inr (js ''/get/index/foo'') \<and>
   fetchJSON (respond_with \<lparr>status = 404, json = Some (JString (js ''Not Found''))\<rparr>)
     (new_FurtrackAPI None Map.empty) (js ''/get/index/foo'') Map.empty
     = Inl (Error (js ''HTTP error 404'')) \<and>
   getTag shortest_stub (respond_with \<lparr>status = 404, json = Some (JString (js ''Not Found''))\<rparr>)
     (new_FurtrackAPI None Map.empty) (JString (js ''foo''))
     = Inl (Error (js ''HTTP error 404'')) \<and>
   ok \<lparr>status = 200, json = Some (JObject [(js ''tag'', JString (js ''data''))])\<rparr> \<and>
   fetchJSON
     (respond_with \<lparr>status = 200, json = Some (JObject [(js ''tag'', JString (js ''data''))])\<rparr>)
     (new_FurtrackAPI None Map.empty) (js ''/get/index/foo'') Map.empty
     = Inr (JObject [(js ''tag'', JString (js ''data''))])"
proof -
  let ?api = "new_FurtrackAPI None Map.empty"
  let ?bad = "\<lparr>status = 404, json = Some (JString (js ''Not Found''))\<rparr>"
  let ?good = "\<lparr>status = 200, json = Some (JObject [(js ''tag'', JString (js ''data''))])\<rparr>"
  let ?opts = "[js ''method'' \<mapsto> OptString (js ''GET''),
       js ''agent'' \<mapsto> OptAgent (agent ?api),
       js ''headers'' \<mapsto> OptHeaders (defaultHeaders ?api)] ++ Map.empty"
  have f1: "respond_with ?bad (baseUrl ?api @ js ''/get/index/foo'') ?opts = Inr ?bad"
    by (simp only: respond_with_def)
  have f2: "respond_with ?good (baseUrl ?api @ js ''/get/index/foo'') ?opts = Inr ?good"
    by (simp only: respond_with_def)
  have nok: "\<not> ok ?bad" by (simp add: ok_def)
  have isok: "ok ?good" by (simp add: ok_def)
  have p: "getTag_path shortest_stub (JString (js ''foo'')) = Inr (js ''/get/index/foo'')"
    by (simp add: getTag_path_def encodeURIComponent_def Encode_unescaped js_def uriUnescaped_def)
  have d: "js ''HTTP error '' @ digits (status ?bad) = js ''HTTP error 404''"
    by (simp add: digits.simps js_def)
  note bad = fetchJSON_fails_iff_not_ok
    [where fetch = "respond_with ?bad" and this = ?api and path = "js ''/get/index/foo''"
       and options = Map.empty and res = ?bad and other_body = "Some JNull"
       and tag = "JString (js ''foo'')", OF f1]
  note good = fetchJSON_fails_iff_not_ok
    [where fetch = "respond_with ?good" and this = ?api and path = "js ''/get/index/foo''"
       and options = Map.empty and res = ?good, OF f2]
  from bad nok d have r1: "fetchJSON (respond_with ?bad) ?api (js ''/get/index/foo'') Map.empty
     = Inl (Error (js ''HTTP error 404''))" by metis
  from bad nok p d have r2: "getTag shortest_stub (respond_with ?bad) ?api (JString (js ''foo''))
     = Inl (Error (js ''HTTP error 404''))" by metis
  from good isok have r3: "fetchJSON (respond_with ?good) ?api (js ''/get/index/foo'') Map.empty
     = Inr (JObject [(js ''tag'', JString (js ''data''))])" by simp
  from f1 nok p r1 r2 isok r3 show ?thesis by blast
qed

text \<open>
  C6. Every path segment is percent-encoded before it is put into the path. For each
  operation and each string segment (the tag, the username, the post identifier, the
  album identifier) that \<open>encodeURIComponent\<close> encodes: the URL the operation requests
  is the base URL and the template with the encoding in the place of the segment (asked
  of the echoing network the operation returns that URL, and its result is the same on
  two networks that answer that one request alike); the encoding holds only unescaped
  characters and escapes \<open>%XY\<close> (so no slash, question mark, hash or other reserved
  character), and reading it back gives the string again. \<open>encodeURIComponent\<close>
  encodes exactly the well-formed strings; for a string with a lone surrogate it throws
  a URIError and every operation fails with it, whatever the network.
\<close>

theorem path_segments_percent_encoded:
  "(encodeURIComponent shortest (JString tag) = Inr t \<longrightarrow>
      getTag shortest echo this (JString tag)
        = Inr (JString (baseUrl this @ js ''/get/index/'' @ t)) \<and>
      (same_answer fetch' fetch this (js ''/get/index/'' @ t) \<longrightarrow>
         getTag shortest fetch' this (JString tag) = getTag shortest fetch this (JString tag)) \<and>
      getPostsByTag shortest echo_posts this (JString tag) page
        = Inr (JString (baseUrl this @ js ''/get/tag/'' @ t
                 @ (if greater_than_zero page
                    then js ''/'' @ Number_toString shortest page else []))) \<and>
      (same_answer fetch' fetch this
         (js ''/get/tag/'' @ t
            @ (if greater_than_zero page
               then js ''/'' @ Number_toString shortest page else [])) \<longrightarrow>
         getPostsByTag shortest fetch' this (JString tag) page
           = getPostsByTag shortest fetch this (JString tag) page)) \<and>
   (encodeURIComponent shortest (JString username) = Inr u \<longrightarrow>
      getUser shortest echo this (JString username)
        = Inr (JString (baseUrl this @ js ''/get/u/'' @ u)) \<and>
      (same_answer fetch' fetch this (js ''/get/u/'' @ u) \<longrightarrow>
         getUser shortest fetch' this (JString username)
           = getUser shortest fetch this (JString username)) \<and>
      getPostsByUser shortest echo_posts this (JString username) page
        = Inr (JString (baseUrl this @ js ''/view/album/'' @ u @ js ''/3''
                 @ (if greater_than_zero page
                    then js ''/'' @ Number_toString shortest page else []))) \<and>
      (same_answer fetch' fetch this
         (js ''/view/album/'' @ u @ js ''/3''
            @ (if greater_than_zero page
               then js ''/'' @ Number_toString shortest page else [])) \<longrightarrow>
         getPostsByUser shortest fetch' this (JString username) page
           = getPostsByUser shortest fetch this (JString username) page) \<and>
      getLikes shortest echo_posts this (JString username) page
        = Inr (JString (baseUrl this @ js ''/view/album/'' @ u @ js ''/o''
                 @ (if greater_than_zero page
                    then js ''/'' @ Number_toString shortest page else []))) \<and>
      (same_answer fetch' fetch this
         (js ''/view/album/'' @ u @ js ''/o''
            @ (if greater_than_zero page
               then js ''/'' @ Number_toString shortest page else [])) \<longrightarrow>
         getLikes shortest fetch' this (JString username) page
           = getLikes shortest fetch this (JString username) page)) \<and>
   (encodeURIComponent shortest (JString postId) = Inr p \<longrightarrow>
      getPost shortest echo this (JString postId)
        = Inr (JString (baseUrl this @ js ''/view/post/'' @ p)) \<and>
      (same_answer fetch' fetch this (js ''/view/post/'' @ p) \<longrightarrow>
         getPost shortest fetch' this (JString postId)
           = getPost shortest fetch this (JString postId))) \<and>
   (encodeURIComponent shortest (JString username) = Inr u \<and>
    encodeURIComponent shortest (JString albumId) = Inr a \<longrightarrow>
      getAlbum shortest echo this (JString username) (JString albumId) page
        = Inr (JString (baseUrl this @ js ''/view/album/'' @ u @ js ''/'' @ a
                 @ (if greater_than_zero page
                    then js ''/'' @ Number_toString shortest page else []))) \<and>
      (same_answer fetch' fetch this
         (js ''/view/album/'' @ u @ js ''/'' @ a
            @ (if greater_than_zero page
               then js ''/'' @ Number_toString shortest page else [])) \<longrightarrow>
         getAlbum shortest fetch' this (JString username) (JString albumId) page
           = getAlbum shortest fetch this (JString username) (JString albumId) page)) \<and>
   (encodeURIComponent shortest (JString s) = Inr e \<longrightarrow>
      list_all (\<lambda>c. uriUnescaped c \<or> c = 37) e \<and> percent_decode e = Some s) \<and>
   ((\<exists>e. encodeURIComponent shortest (JString s) = Inr e) \<longleftrightarrow> isWellFormed s) \<and>
   (\<not> isWellFormed s \<longrightarrow>
      encodeURIComponent shortest (JString s) = Inl URIError \<and>
      getTag shortest fetch this (JString s) = Inl URIError \<and>
      getUser shortest fetch this (JString s) = Inl URIError \<and>
      getPost shortest fetch this (JString s) = Inl URIError \<and>
      getPostsByTag shortest fetch this (JString s) page = Inl URIError \<and>
      getPostsByUser shortest fetch this (JString s) page = Inl URIError \<and>
      getLikes shortest fetch this (JString s) page = Inl URIError \<and>
      getAlbum shortest fetch this (JString s) (JString albumId) page = Inl URIError \<and>
      getAlbum shortest fetch this (JString username) (JString s) page = Inl URIError)"
proof -
  let ?suffix = "if greater_than_zero page then js ''/'' @ Number_toString shortest page else []"
  have 1: "encodeURIComponent shortest (JString tag) = Inr t \<longrightarrow>
      getTag shortest echo this (JString tag)
        = Inr (JString (baseUrl this @ js ''/get/index/'' @ t)) \<and>
      (same_answer fetch' fetch this (js ''/get/index/'' @ t) \<longrightarrow>
         getTag shortest fetch' this (JString tag) = getTag shortest fetch this (JString tag)) \<and>
      getPostsByTag shortest echo_posts this (JString tag) page
        = Inr (JString (baseUrl this @ js ''/get/tag/'' @ t @ ?suffix)) \<and>
      (same_answer fetch' fetch this (js ''/get/tag/'' @ t @ ?suffix) \<longrightarrow>
         getPostsByTag shortest fetch' this (JString tag) page
           = getPostsByTag shortest fetch this (JString tag) page)"
  proof
    assume "encodeURIComponent shortest (JString tag) = Inr t"
    then have p: "getTag_path shortest (JString tag) = Inr (js ''/get/index/'' @ t)"
      and q: "getPostsByTag_path shortest (JString tag) page
                = Inr (js ''/get/tag/'' @ t @ ?suffix)"
      by (simp_all add: getTag_path_def getPostsByTag_path_def)
    from getTag_requests [OF p]
      getPostsByTag_requests [OF q]
    show "getTag shortest echo this (JString tag)
        = Inr (JString (baseUrl this @ js ''/get/index/'' @ t)) \<and>
      (same_answer fetch' fetch this (js ''/get/index/'' @ t) \<longrightarrow>
         getTag shortest fetch' this (JString tag) = getTag shortest fetch this (JString tag)) \<and>
      getPostsByTag shortest echo_posts this (JString tag) page
        = Inr (JString (baseUrl this @ js ''/get/tag/'' @ t @ ?suffix)) \<and>
      (same_answer fetch' fetch this (js ''/get/tag/'' @ t @ ?suffix) \<longrightarrow>
         getPostsByTag shortest fetch' this (JString tag) page
           = getPostsByTag shortest fetch this (JString tag) page)"
      by blast
  qed
  have 2: "encodeURIComponent shortest (JString username) = Inr u \<longrightarrow>
      getUser shortest echo this (JString username)
        = Inr (JString (baseUrl this @ js ''/get/u/'' @ u)) \<and>
      (same_answer fetch' fetch this (js ''/get/u/'' @ u) \<longrightarrow>
         getUser shortest fetch' this (JString username)
           = getUser shortest fetch this (JString username)) \<and>
      getPostsByUser shortest echo_posts this (JString username) page
        = Inr (JString (baseUrl this @ js ''/view/album/'' @ u @ js ''/3'' @ ?suffix)) \<and>
      (same_answer fetch' fetch this (js ''/view/album/'' @ u @ js ''/3'' @ ?suffix) \<longrightarrow>
         getPostsByUser shortest fetch' this (JString username) page
           = getPostsByUser shortest fetch this (JString username) page) \<and>
      getLikes shortest echo_posts this (JString username) page
        = Inr (JString (baseUrl this @ js ''/view/album/'' @ u @ js ''/o'' @ ?suffix)) \<and>
      (same_answer fetch' fetch this (js ''/view/album/'' @ u @ js ''/o'' @ ?suffix) \<longrightarrow>
         getLikes shortest fetch' this (JString username) page
           = getLikes shortest fetch this (JString username) page)"
  proof
    assume "encodeURIComponent shortest (JString username) = Inr u"
    then have p: "getUser_path shortest (JString username) = Inr (js ''/get/u/'' @ u)"
      and q: "getPostsByUser_path shortest (JString username) page
                = Inr (js ''/view/album/'' @ u @ js ''/3'' @ ?suffix)"
      and r: "getLikes_path shortest (JString username) page
                = Inr (js ''/view/album/'' @ u @ js ''/o'' @ ?suffix)"
      by (simp_all add: getUser_path_def getPostsByUser_path_def getLikes_path_def)
    from getUser_requests [OF p]
      getPostsByUser_requests [OF q]
      getLikes_requests [OF r]
    show "getUser shortest echo this (JString username)
        = Inr (JString (baseUrl this @ js ''/get/u/'' @ u)) \<and>
      (same_answer fetch' fetch this (js ''/get/u/'' @ u) \<longrightarrow>
         getUser shortest fetch' this (JString username)
           = getUser shortest fetch this (JString username)) \<and>
      getPostsByUser shortest echo_posts this (JString username) page
        = Inr (JString (baseUrl this @ js ''/view/album/'' @ u @ js ''/3'' @ ?suffix)) \<and>
      (same_answer fetch' fetch this (js ''/view/album/'' @ u @ js ''/3'' @ ?suffix) \<longrightarrow>
         getPostsByUser shortest fetch' this (JString username) page
           = getPostsByUser shortest fetch this (JString username) page) \<and>
      getLikes shortest echo_posts this (JString username) page
        = Inr (JString (baseUrl this @ js ''/view/album/'' @ u @ js ''/o'' @ ?suffix)) \<and>
      (same_answer fetch' fetch this (js ''/view/album/'' @ u @ js ''/o'' @ ?suffix) \<longrightarrow>
         getLikes shortest fetch' this (JString username) page
           = getLikes shortest fetch this (JString username) page)"
      by blast
  qed
  have 3: "encodeURIComponent shortest (JString postId) = Inr p \<longrightarrow>
      getPost shortest echo this (JString postId)
        = Inr (JString (baseUrl this @ js ''/view/post/'' @ p)) \<and>
      (same_answer fetch' fetch this (js ''/view/post/'' @ p) \<longrightarrow>
         getPost shortest fetch' this (JString postId)
           = getPost shortest fetch this (JString postId))"
  proof
    assume "encodeURIComponent shortest (JString postId) = Inr p"
    then have q: "getPost_path shortest (JString postId) = Inr (js ''/view/post/'' @ p)"
      by (simp add: getPost_path_def)
    from getPost_requests [OF q]
    show "getPost shortest echo this (JString postId)
        = Inr (JString (baseUrl this @ js ''/view/post/'' @ p)) \<and>
      (same_answer fetch' fetch this (js ''/view/post/'' @ p) \<longrightarrow>
         getPost shortest fetch' this (JString postId)
           = getPost shortest fetch this (JString postId))"
      by blast
  qed
  have 4: "encodeURIComponent shortest (JString username) = Inr u \<and>
    encodeURIComponent shortest (JString albumId) = Inr a \<longrightarrow>
      getAlbum shortest echo this (JString username) (JString albumId) page
        = Inr (JString (baseUrl this @ js ''/view/album/'' @ u @ js ''/'' @ a @ ?suffix)) \<and>
      (same_answer fetch' fetch this (js ''/view/album/'' @ u @ js ''/'' @ a @ ?suffix) \<longrightarrow>
         getAlbum shortest fetch' this (JString username) (JString albumId) page
           = getAlbum shortest fetch this (JString username) (JString albumId) page)"
  proof
    assume "encodeURIComponent shortest (JString username) = Inr u \<and>
      encodeURIComponent shortest (JString albumId) = Inr a"
    then have q: "getAlbum_path shortest (JString username) (JString albumId) page
        = Inr (js ''/view/album/'' @ u @ js ''/'' @ a @ ?suffix)"
      by (simp add: getAlbum_path_def)
    from getAlbum_requests [OF q]
    show "getAlbum shortest echo this (JString username) (JString albumId) page
        = Inr (JString (baseUrl this @ js ''/view/album/'' @ u @ js ''/'' @ a @ ?suffix)) \<and>
      (same_answer fetch' fetch this (js ''/view/album/'' @ u @ js ''/'' @ a @ ?suffix) \<longrightarrow>
         getAlbum shortest fetch' this (JString username) (JString albumId) page
           = getAlbum shortest fetch this (JString username) (JString albumId) page)"
      by blast
  qed
  have 5: "encodeURIComponent shortest (JString s) = Inr e \<longrightarrow>
      list_all (\<lambda>c. uriUnescaped c \<or> c = 37) e \<and> percent_decode e = Some s"
    using encoded_segment [of s e] by simp
  have 6: "(\<exists>e. encodeURIComponent shortest (JString s) = Inr e) \<longleftrightarrow> isWellFormed s"
    by (simp add: Encode_isWellFormed)
  have 7: "\<not> isWellFormed s \<longrightarrow>
      encodeURIComponent shortest (JString s) = Inl URIError \<and>
      getTag shortest fetch this (JString s) = Inl URIError \<and>
      getUser shortest fetch this (JString s) = Inl URIError \<and>
      getPost shortest fetch this (JString s) = Inl URIError \<and>
      getPostsByTag shortest fetch this (JString s) page = Inl URIError \<and>
      getPostsByUser shortest fetch this (JString s) page = Inl URIError \<and>
      getLikes shortest fetch this (JString s) page = Inl URIError \<and>
      getAlbum shortest fetch this (JString s) (JString albumId) page = Inl URIError \<and>
      getAlbum shortest fetch this (JString username) (JString s) page = Inl URIError"
  proof
    assume "\<not> isWellFormed s"
    then have e: "Encode s = Inl URIError"
      by (rule Encode_ill_formed)
    have "and_then (Encode username) (\<lambda>u. and_then (Inl URIError) (f u))
            = (Inl URIError :: error + jsstring)" for f
    proof (cases "Encode username")
      case (Inl err)
      with Encode_ill_formed [of username] Encode_isWellFormed [of username] show ?thesis
        by (cases "isWellFormed username") auto
    next
      case (Inr u)
      then show ?thesis by simp
    qed
    with e show "encodeURIComponent shortest (JString s) = Inl URIError \<and>
      getTag shortest fetch this (JString s) = Inl URIError \<and>
      getUser shortest fetch this (JString s) = Inl URIError \<and>
      getPost shortest fetch this (JString s) = Inl URIError \<and>
      getPostsByTag shortest fetch this (JString s) page = Inl URIError \<and>
      getPostsByUser shortest fetch this (JString s) page = Inl URIError \<and>
      getLikes shortest fetch this (JString s) page = Inl URIError \<and>
      getAlbum shortest fetch this (JString s) (JString albumId) page = Inl URIError \<and>
      getAlbum shortest fetch this (JString username) (JString s) page = Inl URIError"
      by (simp add: getTag_def getTag_path_def getUser_def getUser_path_def getPost_def
          getPost_path_def getPostsByTag_def getPostsByTag_path_def getPostsByUser_def
          getPostsByUser_path_def getLikes_def getLikes_path_def getAlbum_def getAlbum_path_def)
  qed
  show ?thesis
    by (intro conjI) (rule 1 2 3 4 5 6 7)+
qed

text \<open>
  A tag with a slash, a space and a question mark; a username that is one code point
  outside the basic plane (a surrogate pair); a lone surrogate.
\<close>

theorem path_segments_percent_encoded_witness:
  "encodeURIComponent shortest_stub (JString (js ''a/b c?'')) = Inr (js ''a%2Fb%20c%3F'') \<and>
   getTag shortest_stub echo api (JString (js ''a/b c?''))
     = Inr (JString (js ''https://solar.furtrack.com/get/index/a%2Fb%20c%3F'')) \<and>
   percent_decode (js ''a%2Fb%20c%3F'') = Some (js ''a/b c?'') \<and>
   encodeURIComponent shortest_stub (JString [55357, 56378]) = Inr (js ''%F0%9F%90%BA'') \<and>
   getLikes shortest_stub echo_posts api (JString [55357, 56378]) (Num 2)
     = Inr (JString (js ''https://solar.furtrack.com/view/album/%F0%9F%90%BA/o/2'')) \<and>
   percent_decode (js ''%F0%9F%90%BA'') = Some [55357, 56378] \<and>
   \<not> isWellFormed [55357] \<and>
   getUser shortest_stub echo api (JString [55357]) = Inl URIError"
proof -
  have e1: "encodeURIComponent shortest_stub (JString (js ''a/b c?'')) = Inr (js ''a%2Fb%20c%3F'')"
    by (simp add: js_def uriUnescaped_def Encode.simps
        is_leading_surrogate_def is_trailing_surrogate_def utf8_def percent_octet_def hex_digit_def)
  have e2: "encodeURIComponent shortest_stub (JString [55357, 56378]) = Inr (js ''%F0%9F%90%BA'')"
    by (simp add: js_def uriUnescaped_def Encode.simps
        is_leading_surrogate_def is_trailing_surrogate_def utf8_def percent_octet_def hex_digit_def
        pair_code_point_def)
  have ill: "\<not> isWellFormed [55357]"
    by (simp add: isWellFormed.simps is_leading_surrogate_def)
  have g: "greater_than_zero (Num 2)" by simp
  note a = path_segments_percent_encoded
    [where shortest = shortest_stub and this = api and tag = "js ''a/b c?''"
       and t = "js ''a%2Fb%20c%3F''" and s = "js ''a/b c?''" and e = "js ''a%2Fb%20c%3F''"]
  note b = path_segments_percent_encoded
    [where shortest = shortest_stub and this = api and username = "[55357, 56378]"
       and u = "js ''%F0%9F%90%BA''" and s = "[55357, 56378]" and e = "js ''%F0%9F%90%BA''"
       and page = "Num 2"]
  note c = path_segments_percent_encoded
    [where shortest = shortest_stub and this = api and s = "[55357]" and fetch = echo]
  from a e1 have r1: "getTag shortest_stub echo api (JString (js ''a/b c?''))
     = Inr (JString (js ''https://solar.furtrack.com/get/index/a%2Fb%20c%3F''))"
    by (simp add: baseUrl_api) (simp add: js_def)
  from a e1 have d1: "percent_decode (js ''a%2Fb%20c%3F'') = Some (js ''a/b c?'')"
    by blast
  from b e2 g have r2: "getLikes shortest_stub echo_posts api (JString [55357, 56378]) (Num 2)
     = Inr (JString (js ''https://solar.furtrack.com/view/album/%F0%9F%90%BA/o/2''))"
    by (simp add: baseUrl_api Number_toString_examples) (simp add: js_def)
  from b e2 have d2: "percent_decode (js ''%F0%9F%90%BA'') = Some [55357, 56378]"
    by blast
  from c ill have r3: "getUser shortest_stub echo api (JString [55357]) = Inl URIError"
    by blast
  from e1 r1 d1 e2 r2 d2 ill r3 show ?thesis by (intro conjI)
qed

text \<open>
  C8, as the specification states it: for every post object with the fields
  \<open>submitUserId\<close>, \<open>id\<close>, \<open>metaFingerprint\<close> and \<open>metaFiletype\<close>, \<open>getThumbnail\<close>
  returns the fixed template filled with them. The code does not for every such post:
  when a field is an object with a property \<open>toString\<close> of its own, as in
  \<open>{submitUserId: 42, id: 99, metaFingerprint: "abc", metaFiletype: {toString: null}}\<close>,
  the template literal cannot convert it and \<open>getThumbnail\<close> fails with a TypeError.
\<close>

theorem getThumbnail_template_counterexample:
  "getPost shortest_stub
     (respond_with
        \<lparr>status = 200,
         json = Some (JObject [(js ''submitUserId'', JNumber (Num 42)),
                               (js ''id'', JNumber (Num 99)),
                               (js ''metaFingerprint'', JString (js ''abc'')),
                               (js ''metaFiletype'', JObject [(js ''toString'', JNull)])])\<rparr>)
     api (JNumber (Num 99))
     = Inr (JObject [(js ''submitUserId'', JNumber (Num 42)),
                     (js ''id'', JNumber (Num 99)),
                     (js ''metaFingerprint'', JString (js ''abc'')),
                     (js ''metaFiletype'', JObject [(js ''toString'', JNull)])]) \<and>
   getThumbnail shortest_stub
     (respond_with
        \<lparr>status = 200,
         json = Some (JObject [(js ''submitUserId'', JNumber (Num 42)),
                               (js ''id'', JNumber (Num 99)),
                               (js ''metaFingerprint'', JString (js ''abc'')),
                               (js ''metaFiletype'', JObject [(js ''toString'', JNull)])])\<rparr>)
     api (JNumber (Num 99))
     = Inl TypeError"
  by (simp add: getThumbnail_def getPost_respond_200 [OF path_post_99]) (simp add: js_def)

text \<open>
  C8, amended: for every post object with the fields \<open>submitUserId\<close>, \<open>id\<close>,
  \<open>metaFingerprint\<close> and \<open>metaFiletype\<close> whose values convert to strings (as every
  string, number, boolean and \<open>null\<close> does), \<open>getThumbnail\<close> is the fixed template
  \<open>https://orca2.furtrack.com/gallery/{submitUserId}/{id}-{metaFingerprint}.{metaFiletype}\<close>
  filled with the four values as strings; for the post with the values 42, 99,
  \<open>"abc"\<close> and \<open>"jpg"\<close> it is exactly
  \<open>https://orca2.furtrack.com/gallery/42/99-abc.jpg\<close>.
\<close>

theorem getThumbnail_template:
  assumes "getPost shortest fetch this postId = Inr (JObject props)"
    and "map_of props (js ''submitUserId'') = Some submitUserId"
    and "map_of props (js ''id'') = Some ident"
    and "map_of props (js ''metaFingerprint'') = Some metaFingerprint"
    and "map_of props (js ''metaFiletype'') = Some metaFiletype"
    and "ToString shortest submitUserId = Inr s1"
    and "ToString shortest ident = Inr s2"
    and "ToString shortest metaFingerprint = Inr s3"
    and "ToString shortest metaFiletype = Inr s4"
  shows
    "getThumbnail shortest fetch this postId
       = Inr (js ''https://orca2.furtrack.com/gallery/'' @ s1 @ js ''/'' @ s2 @ js ''-'' @ s3
              @ js ''.'' @ s4) \<and>
     (submitUserId = JNumber (Num 42) \<and> ident = JNumber (Num 99)
        \<and> metaFingerprint = JString (js ''abc'') \<and> metaFiletype = JString (js ''jpg'') \<longrightarrow>
      getThumbnail shortest fetch this postId
        = Inr (js ''https://orca2.furtrack.com/gallery/42/99-abc.jpg'')) \<and>
     ToString shortest (JString text) = Inr text \<and>
     ToString shortest (JNumber number) = Inr (Number_toString shortest number) \<and>
     ToString shortest (JBool flag) = Inr (if flag then js ''true'' else js ''false'') \<and>
     ToString shortest JNull = Inr (js ''null'')"
proof -
  have general: "getThumbnail shortest fetch this postId
       = Inr (js ''https://orca2.furtrack.com/gallery/'' @ s1 @ js ''/'' @ s2 @ js ''-'' @ s3
              @ js ''.'' @ s4)"
    using assms by (simp add: getThumbnail_def)
  have example: "getThumbnail shortest fetch this postId
        = Inr (js ''https://orca2.furtrack.com/gallery/42/99-abc.jpg'')"
    if "submitUserId = JNumber (Num 42) \<and> ident = JNumber (Num 99)
        \<and> metaFingerprint = JString (js ''abc'') \<and> metaFiletype = JString (js ''jpg'')"
  proof -
    from that assms(6-9) have "s1 = js ''42''" "s2 = js ''99''" "s3 = js ''abc''" "s4 = js ''jpg''"
      by (auto simp: Number_toString_examples)
    with general show ?thesis by (simp add: js_def)
  qed
  from general example show ?thesis by simp
qed

text \<open>The post of the test suite, fetched with status 200.\<close>

theorem getThumbnail_template_witness:
  "getPost shortest_stub
     (respond_with
        \<lparr>status = 200,
         json = Some (JObject [(js ''submitUserId'', JNumber (Num 42)), (js ''id'', JNumber (Num 99)),
                               (js ''metaFingerprint'', JString (js ''abc'')),
                               (js ''metaFiletype'', JString (js ''jpg''))])\<rparr>)
     api (JNumber (Num 99))
     = Inr (JObject [(js ''submitUserId'', JNumber (Num 42)), (js ''id'', JNumber (Num 99)),
                     (js ''metaFingerprint'', JString (js ''abc'')),
                     (js ''metaFiletype'', JString (js ''jpg''))]) \<and>
   ToString shortest_stub (JNumber (Num 42)) = Inr (js ''42'') \<and>
   ToString shortest_stub (JNumber (Num 99)) = Inr (js ''99'') \<and>
   getThumbnail shortest_stub
     (respond_with
        \<lparr>status = 200,
         json = Some (JObject [(js ''submitUserId'', JNumber (Num 42)), (js ''id'', JNumber (Num 99)),
                               (js ''metaFingerprint'', JString (js ''abc'')),
                               (js ''metaFiletype'', JString (js ''jpg''))])\<rparr>)
     api (JNumber (Num 99))
     = Inr (js ''https://orca2.furtrack.com/gallery/42/99-abc.jpg'')"
proof -
  let ?props = "[(js ''submitUserId'', JNumber (Num 42)), (js ''id'', JNumber (Num 99)),
                 (js ''metaFingerprint'', JString (js ''abc'')),
                 (js ''metaFiletype'', JString (js ''jpg''))]"
  let ?net = "respond_with \<lparr>status = 200, json = Some (JObject ?props)\<rparr>"
  have g: "getPost shortest_stub ?net api (JNumber (Num 99)) = Inr (JObject ?props)"
    by (rule getPost_respond_200 [OF path_post_99])
  have m: "map_of ?props (js ''submitUserId'') = Some (JNumber (Num 42))"
    "map_of ?props (js ''id'') = Some (JNumber (Num 99))"
    "map_of ?props (js ''metaFingerprint'') = Some (JString (js ''abc''))"
    "map_of ?props (js ''metaFiletype'') = Some (JString (js ''jpg''))"
    by (simp_all add: js_def)
  have t: "ToString shortest_stub (JNumber (Num 42)) = Inr (js ''42'')"
    "ToString shortest_stub (JNumber (Num 99)) = Inr (js ''99'')"
    "ToString shortest_stub (JString (js ''abc'')) = Inr (js ''abc'')"
    "ToString shortest_stub (JString (js ''jpg'')) = Inr (js ''jpg'')"
    by (simp_all add: Number_toString_examples)
  from getThumbnail_template
    [where shortest = shortest_stub and fetch = ?net and this = api
       and postId = "JNumber (Num 99)", OF g m t]
  have "getThumbnail shortest_stub ?net api (JNumber (Num 99))
     = Inr (js ''https://orca2.furtrack.com/gallery/42/99-abc.jpg'')"
    by blast
  with g t show ?thesis by (intro conjI)
qed

text \<open>
  C9. \<open>setHeaders h\<close> is a shallow merge: afterwards every key of \<open>h\<close> has its value in
  \<open>h\<close>, every key \<open>h\<close> does not mention has the value it had, the keys are those of
  before and those of \<open>h\<close>; neither \<open>setHeaders\<close> nor \<open>setApiKey\<close> removes a key;
  \<open>setApiKey\<close> changes no header but \<open>Authorization\<close>, and \<open>setHeaders\<close> leaves the
  key, the base URL and the agent alone. Keys are compared as strings, so a key that
  differs in case is another key.
\<close>

theorem setHeaders_shallow_merge:
  "(\<forall>k v. h k = Some v \<longrightarrow> defaultHeaders (setHeaders this h) k = Some v) \<and>
   (\<forall>k. h k = None \<longrightarrow> defaultHeaders (setHeaders this h) k = defaultHeaders this k) \<and>
   dom (defaultHeaders (setHeaders this h)) = dom (defaultHeaders this) \<union> dom h \<and>
   dom (defaultHeaders this) \<subseteq> dom (defaultHeaders (setHeaders this h)) \<and>
   dom (defaultHeaders this) \<subseteq> dom (defaultHeaders (setApiKey this key)) \<and>
   (\<forall>k. k \<noteq> js ''Authorization'' \<longrightarrow>
      defaultHeaders (setApiKey this key) k = defaultHeaders this k) \<and>
   apiKey (setHeaders this h) = apiKey this \<and>
   baseUrl (setHeaders this h) = baseUrl this \<and>
   agent (setHeaders this h) = agent this"
  by (auto simp: setHeaders_def setApiKey_def map_add_def split: option.splits)

text \<open>
  On a fresh client: a new key is added and \<open>User-Agent\<close> stays; \<open>user-agent\<close> does not
  overwrite \<open>User-Agent\<close>, \<open>User-Agent\<close> does; \<open>setApiKey\<close> keeps the added key.
\<close>

theorem setHeaders_shallow_merge_witness:
  "defaultHeaders
     (setHeaders (new_FurtrackAPI None Map.empty) [js ''X-Test'' \<mapsto> js ''foo''])
     (js ''X-Test'') = Some (js ''foo'') \<and>
   defaultHeaders
     (setHeaders (new_FurtrackAPI None Map.empty) [js ''X-Test'' \<mapsto> js ''foo''])
     (js ''User-Agent'')
     = Some (js ''furtrack-api/1.0 (https://github.com/blumlaut/furtrack-api)'') \<and>
   defaultHeaders
     (setHeaders (new_FurtrackAPI None Map.empty) [js ''user-agent'' \<mapsto> js ''mine''])
     (js ''User-Agent'')
     = Some (js ''furtrack-api/1.0 (https://github.com/blumlaut/furtrack-api)'') \<and>
   defaultHeaders
     (setHeaders (new_FurtrackAPI None Map.empty) [js ''User-Agent'' \<mapsto> js ''mine''])
     (js ''User-Agent'') = Some (js ''mine'') \<and>
   defaultHeaders
     (setApiKey (setHeaders (new_FurtrackAPI None Map.empty) [js ''X-Test'' \<mapsto> js ''foo''])
        (js ''k''))
     (js ''X-Test'') = Some (js ''foo'')"
proof -
  let ?api = "new_FurtrackAPI None Map.empty"
  have ua: "defaultHeaders ?api (js ''User-Agent'')
      = Some (js ''furtrack-api/1.0 (https://github.com/blumlaut/furtrack-api)'')"
    by (simp add: new_FurtrackAPI_def js_def)
  have 1: "[js ''X-Test'' \<mapsto> js ''foo''] (js ''X-Test'') = Some (js ''foo'')"
    by simp
  have 2: "[js ''X-Test'' \<mapsto> js ''foo''] (js ''User-Agent'') = None"
    by (simp add: js_def)
  have 3: "[js ''user-agent'' \<mapsto> js ''mine''] (js ''User-Agent'') = None"
    by (simp add: js_def)
  have 4: "[js ''User-Agent'' \<mapsto> js ''mine''] (js ''User-Agent'') = Some (js ''mine'')"
    by simp
  have 5: "js ''X-Test'' \<noteq> js ''Authorization''"
    by (simp add: js_def)
  note m1 = setHeaders_shallow_merge [of "[js ''X-Test'' \<mapsto> js ''foo'']" ?api "js ''k''"]
  note m3 = setHeaders_shallow_merge [of "[js ''user-agent'' \<mapsto> js ''mine'']" ?api "js ''k''"]
  note m4 = setHeaders_shallow_merge [of "[js ''User-Agent'' \<mapsto> js ''mine'']" ?api "js ''k''"]
  note m5 = setHeaders_shallow_merge
    [of "Map.empty" "setHeaders ?api [js ''X-Test'' \<mapsto> js ''foo'']" "js ''k''"]
  from m1 1 have a: "defaultHeaders (setHeaders ?api [js ''X-Test'' \<mapsto> js ''foo'']) (js ''X-Test'')
      = Some (js ''foo'')" by blast
  from m1 2 ua have b: "defaultHeaders (setHeaders ?api [js ''X-Test'' \<mapsto> js ''foo'']) (js ''User-Agent'')
      = Some (js ''furtrack-api/1.0 (https://github.com/blumlaut/furtrack-api)'')" by metis
  from m3 3 ua have c: "defaultHeaders (setHeaders ?api [js ''user-agent'' \<mapsto> js ''mine'']) (js ''User-Agent'')
      = Some (js ''furtrack-api/1.0 (https://github.com/blumlaut/furtrack-api)'')" by metis
  from m4 4 have d: "defaultHeaders (setHeaders ?api [js ''User-Agent'' \<mapsto> js ''mine'']) (js ''User-Agent'')
      = Some (js ''mine'')" by blast
  from m5 5 a have e: "defaultHeaders
     (setApiKey (setHeaders ?api [js ''X-Test'' \<mapsto> js ''foo'']) (js ''k''))
     (js ''X-Test'') = Some (js ''foo'')" by metis
  from a b c d e show ?thesis by blast
qed

text \<open>
  C10. When the body maps \<open>posts\<close> to a falsy value (\<open>null\<close>, \<open>false\<close>, \<open>0\<close> or the
  empty string), each list-fetch operation returns the empty sequence: the value is
  replaced, neither returned nor rejected.
\<close>

theorem list_fetch_falsy_posts_empty:
  assumes "fetchJSON fetch this path Map.empty = Inr (JObject props)"
    and "map_of props (js ''posts'') = Some v"
    and "v = JNull \<or> v = JBool False \<or> v = JNumber (Num 0) \<or> v = JString []"
  shows
    "(getPostsByTag_path shortest tag page = Inr path \<longrightarrow>
        getPostsByTag shortest fetch this tag page = Inr (JArray [])) \<and>
     (getPostsByUser_path shortest username page = Inr path \<longrightarrow>
        getPostsByUser shortest fetch this username page = Inr (JArray [])) \<and>
     (getLikes_path shortest username page = Inr path \<longrightarrow>
        getLikes shortest fetch this username page = Inr (JArray []))"
  using assms by (auto simp: list_fetch_results)

text \<open>One operation for each of the four falsy values.\<close>

theorem list_fetch_falsy_posts_empty_witness:
  "getPostsByTag shortest_stub
     (respond_with \<lparr>status = 200, json = Some (JObject [(js ''posts'', JNull)])\<rparr>)
     (new_FurtrackAPI None Map.empty) (JString (js ''foo'')) (Num 0) = Inr (JArray []) \<and>
   getPostsByUser shortest_stub
     (respond_with \<lparr>status = 200, json = Some (JObject [(js ''posts'', JBool False)])\<rparr>)
     (new_FurtrackAPI None Map.empty) (JString (js ''user'')) (Num 2) = Inr (JArray []) \<and>
   getLikes shortest_stub
     (respond_with \<lparr>status = 200, json = Some (JObject [(js ''posts'', JNumber (Num 0))])\<rparr>)
     (new_FurtrackAPI None Map.empty) (JString (js ''user'')) (Num 1) = Inr (JArray []) \<and>
   getLikes shortest_stub
     (respond_with \<lparr>status = 200, json = Some (JObject [(js ''posts'', JString [])])\<rparr>)
     (new_FurtrackAPI None Map.empty) (JString (js ''user'')) (Num 1) = Inr (JArray [])"
proof -
  let ?api = "new_FurtrackAPI None Map.empty"
  have m: "\<And>v. map_of [(js ''posts'', v)] (js ''posts'') = Some (v :: jsvalue)" by simp
  note a = list_fetch_falsy_posts_empty
    [where v = JNull and tag = "JString (js ''foo'')" and page = "Num 0",
      OF fetchJSON_respond_200 m]
  note b = list_fetch_falsy_posts_empty
    [where v = "JBool False" and username = "JString (js ''user'')" and page = "Num 2",
      OF fetchJSON_respond_200 m]
  note c = list_fetch_falsy_posts_empty
    [where v = "JNumber (Num 0)" and username = "JString (js ''user'')" and page = "Num 1",
      OF fetchJSON_respond_200 m]
  note d = list_fetch_falsy_posts_empty
    [where v = "JString []" and username = "JString (js ''user'')" and page = "Num 1",
      OF fetchJSON_respond_200 m]
  from a path_foo have 1: "getPostsByTag shortest_stub
     (respond_with \<lparr>status = 200, json = Some (JObject [(js ''posts'', JNull)])\<rparr>)
     ?api (JString (js ''foo'')) (Num 0) = Inr (JArray [])" by simp
  from b path_user_2 have 2: "getPostsByUser shortest_stub
     (respond_with \<lparr>status = 200, json = Some (JObject [(js ''posts'', JBool False)])\<rparr>)
     ?api (JString (js ''user'')) (Num 2) = Inr (JArray [])" by simp
  from c path_user_1 have 3: "getLikes shortest_stub
     (respond_with \<lparr>status = 200, json = Some (JObject [(js ''posts'', JNumber (Num 0))])\<rparr>)
     ?api (JString (js ''user'')) (Num 1) = Inr (JArray [])" by simp
  from d path_user_1 have 4: "getLikes shortest_stub
     (respond_with \<lparr>status = 200, json = Some (JObject [(js ''posts'', JString [])])\<rparr>)
     ?api (JString (js ''user'')) (Num 1) = Inr (JArray [])" by simp
  from 1 2 3 4 show ?thesis by blast
qed

text \<open>
  C7. \<open>getTagsByType tags t\<close> is the sequence of the parsed values of exactly those
  elements whose parsed type is \<open>t\<close>, in input order and with duplicates kept (so it
  distributes over concatenation of inputs); the four-element list of the specification
  gives \<open>["Alpha", "Gamma"]\<close> for the character type; and a list without a matching
  element gives the empty sequence.
\<close>

theorem getTagsByType_filter_map:
  "getTagsByType tags t =
     map (\<lambda>x. value (parseTag (tagName x)))
       (filter (\<lambda>x. type (parseTag (tagName x)) = t) tags) \<and>
   getTagsByType (tags @ others) t = getTagsByType tags t @ getTagsByType others t \<and>
   getTagsByType
     [\<lparr>tagName = js ''1:Alpha''\<rparr>, \<lparr>tagName = js ''2:Beta''\<rparr>,
      \<lparr>tagName = js ''1:Gamma''\<rparr>, \<lparr>tagName = js ''random''\<rparr>] TagTypes_Character
     = [js ''Alpha'', js ''Gamma''] \<and>
   ((\<forall>x \<in> set tags. type (parseTag (tagName x)) \<noteq> t) \<longrightarrow> getTagsByType tags t = [])"
proof (intro conjI impI)
  show "getTagsByType tags t =
     map (\<lambda>x. value (parseTag (tagName x)))
       (filter (\<lambda>x. type (parseTag (tagName x)) = t) tags)"
    by (simp add: getTagsByType_def filter_map comp_def)
  show "getTagsByType (tags @ others) t = getTagsByType tags t @ getTagsByType others t"
    by (simp add: getTagsByType_def)
  show "getTagsByType
     [\<lparr>tagName = js ''1:Alpha''\<rparr>, \<lparr>tagName = js ''2:Beta''\<rparr>,
      \<lparr>tagName = js ''1:Gamma''\<rparr>, \<lparr>tagName = js ''random''\<rparr>] TagTypes_Character
     = [js ''Alpha'', js ''Gamma'']"
    by (simp add: getTagsByType_def parseTag_unfold startsWith_prefix js_def
        TagTypes_Character_def TagTypes_Maker_def TagTypes_General_def)
  assume "\<forall>x \<in> set tags. type (parseTag (tagName x)) \<noteq> t"
  then show "getTagsByType tags t = []"
    by (simp add: getTagsByType_def filter_empty_conv)
qed

text \<open>The one-element list of the test suite, and a list with a duplicate.\<close>

theorem getTagsByType_filter_map_witness:
  "type (parseTag (tagName \<lparr>tagName = js ''2:Beta''\<rparr>)) \<noteq> TagTypes_Event \<and>
   getTagsByType [\<lparr>tagName = js ''2:Beta''\<rparr>] TagTypes_Event = [] \<and>
   getTagsByType [\<lparr>tagName = js ''5:Con''\<rparr>, \<lparr>tagName = js ''6Wolf''\<rparr>, \<lparr>tagName = js ''5:Con''\<rparr>]
     TagTypes_Event = [js ''Con'', js ''Con'']"
  using getTagsByType_filter_map [of "[\<lparr>tagName = js ''2:Beta''\<rparr>]" TagTypes_Event "[]"]
    getTagsByType_filter_map
      [of "[\<lparr>tagName = js ''5:Con''\<rparr>, \<lparr>tagName = js ''6Wolf''\<rparr>, \<lparr>tagName = js ''5:Con''\<rparr>]"
        TagTypes_Event "[]"]
  by (simp add: parseTag_unfold startsWith_prefix js_def
      TagTypes_Event_def TagTypes_Maker_def TagTypes_Species_def)

end
